theory Spec2Isabelle
  imports Complex_Main
begin

section \<open>Data model\<close>

text \<open>
  The program is \<^verbatim>\<open>process_large_file.py\<close>: class \<^verbatim>\<open>FraudDetector\<close> reads a CSV in
  chunks, buffers the valid rows, and scores the buffered table.

  Numbers: pandas columns of dtype float64 are modelled as \<^typ>\<open>real\<close> (infinities and NaN
  are outside the model), Python and int64 integers as \<^typ>\<open>int\<close>. The mean and the standard
  deviation of a group, which pandas computes in float64 and which the program compares
  with 0, are parameters of the model (section Libraries): their rounding decides a branch.

  A cell of a CSV column is empty (pandas NaN), a number, or any other text. A cell that
  \<^verbatim>\<open>read_csv\<close> or \<^verbatim>\<open>pd.to_numeric\<close> reads as a number is a \<open>Num\<close>.
\<close>

datatype cell = Null | Num real | Text string

text \<open>
  Comparison \<^verbatim>\<open>series == value\<close> of pandas: a missing value equals nothing, not even
  another missing value.
\<close>

definition cell_eq :: "cell \<Rightarrow> cell \<Rightarrow> bool" where
  "cell_eq a b = (a \<noteq> Null \<and> a = b)"

text \<open>
  A row of a chunk after the numeric columns are cleaned, and one buffered transaction:
  the row with the two derived metrics, a record of \<^verbatim>\<open>chunk.to_dict('records')\<close>.
  Both are restricted to the canonical fields that the later phases read.
\<close>

record clean_row =
  billing_npi :: cell
  procedure_code :: cell
  claim_month :: cell
  beneficiaries :: int
  claims :: int
  paid :: real

record txn = clean_row +
  cost_per_claim :: real
  claims_per_beneficiary :: real

text \<open>The columns that \<^verbatim>\<open>_calculate_fraud_scores\<close> adds to the table.\<close>

record scored = txn +
  cost_z_score :: real
  claims_per_ben_z_score :: real
  is_cost_anomaly :: bool
  is_volume_anomaly :: bool
  is_ml_anomaly :: bool
  fraud_risk_score :: real

datatype error = FileNotFound | KeyError | ValueError | IndexError

section \<open>Column statistics\<close>

text \<open>\<^verbatim>\<open>Series.unique()\<close>: the distinct values in order of first appearance; all missing
  values count as one value.\<close>

fun unique :: "'a list \<Rightarrow> 'a list" where
  "unique [] = []"
| "unique (x # xs) = x # filter (\<lambda>y. y \<noteq> x) (unique xs)"

text \<open>
  The mean and the sample standard deviation (\<open>ddof = 1\<close>) in exact arithmetic: what
  \<^verbatim>\<open>Series.mean()\<close> and \<^verbatim>\<open>Series.std()\<close> approximate in float64.
\<close>

definition mean :: "real list \<Rightarrow> real" where
  "mean xs = sum_list xs / real (length xs)"

definition std :: "real list \<Rightarrow> real" where
  "std xs = sqrt (sum_list (map (\<lambda>x. (x - mean xs)\<^sup>2) xs) / real (length xs - 1))"

text \<open>
  \<^verbatim>\<open>Series.rank(pct=True)\<close> with the default method \<^verbatim>\<open>'average'\<close>: the values are
  ranked \<open>1..n\<close> in ascending order, tied values share the average of the ranks they
  occupy, and the rank is divided by the number of values.
\<close>

definition rank_average :: "real list \<Rightarrow> real \<Rightarrow> real" where
  "rank_average xs x =
     (let lo = length (filter (\<lambda>y. y < x) xs);
          k = length (filter (\<lambda>y. y = x) xs)
      in sum_list (map real [lo + 1 ..< lo + k + 1]) / real k)"

definition rank_pct :: "real list \<Rightarrow> real \<Rightarrow> real" where
  "rank_pct xs x = rank_average xs x / real (length xs)"

section \<open>Libraries\<close>

text \<open>
  pandas' statistics, numpy's sampler and scikit-learn are not part of the repository: they
  are parameters of the model.
  \<^item> \<open>series_mean\<close> and \<open>series_std\<close> are \<^verbatim>\<open>Series.mean()\<close> and \<^verbatim>\<open>Series.std()\<close> as pandas
    computes them in float64;
  \<^item> \<open>random_choice g n k\<close> is \<^verbatim>\<open>np.random.choice(n, k, replace=False)\<close> drawn from
    numpy's process-global generator in state \<open>g\<close>;
  \<^item> \<open>scaler_fit\<close>, \<open>scaler_transform\<close> are \<^verbatim>\<open>StandardScaler().fit\<close> and \<^verbatim>\<open>.transform\<close>;
  \<^item> \<open>forest_fit\<close>, \<open>forest_predict\<close> are \<^verbatim>\<open>.fit\<close> and \<^verbatim>\<open>.predict\<close> of
    \<^verbatim>\<open>IsolationForest(contamination=0.05, random_state=42, n_jobs=-1)\<close>; a prediction is
    \<open>1\<close> or \<open>-1\<close>.
  \<^verbatim>\<open>fit_transform(X)\<close> is \<^verbatim>\<open>fit(X).transform(X)\<close> and \<^verbatim>\<open>fit_predict(X)\<close> is
  \<^verbatim>\<open>fit(X).predict(X)\<close>.
\<close>

record ('g, 's, 'f) py_libs =
  series_mean :: "real list \<Rightarrow> real"
  series_std :: "real list \<Rightarrow> real"
  random_choice :: "'g \<Rightarrow> nat \<Rightarrow> nat \<Rightarrow> nat list"
  scaler_fit :: "real list list \<Rightarrow> 's"
  scaler_transform :: "'s \<Rightarrow> real list list \<Rightarrow> real list list"
  forest_fit :: "real list list \<Rightarrow> 'f"
  forest_predict :: "'f \<Rightarrow> real list list \<Rightarrow> int list"

section \<open>The scoring pass: \<^verbatim>\<open>_calculate_fraud_scores\<close>\<close>

subsection \<open>Z-scores by procedure code\<close>

text \<open>One iteration of the loop \<^verbatim>\<open>for proc_code in df['procedure_code'].unique()\<close>.\<close>

definition zscore_step :: "('g, 's, 'f) py_libs \<Rightarrow> cell \<Rightarrow> scored list \<Rightarrow> scored list" where
  "zscore_step lib proc_code df =
     (let mask = (\<lambda>r. cell_eq (procedure_code r) proc_code);
          proc_data = filter mask df
      in if length proc_data < 3 then df
         else
           let mean_cost = series_mean lib (map cost_per_claim proc_data);
               std_cost = series_std lib (map cost_per_claim proc_data);
               df1 = (if std_cost > 0
                      then map (\<lambda>r. if mask r
                                     then r\<lparr>cost_z_score := (cost_per_claim r - mean_cost) / std_cost\<rparr>
                                     else r) df
                      else df);
               mean_cpb = series_mean lib (map claims_per_beneficiary proc_data);
               std_cpb = series_std lib (map claims_per_beneficiary proc_data)
           in if std_cpb > 0
              then map (\<lambda>r. if mask r
                             then r\<lparr>claims_per_ben_z_score :=
                                      (claims_per_beneficiary r - mean_cpb) / std_cpb\<rparr>
                             else r) df1
              else df1)"

definition zscore_pass :: "('g, 's, 'f) py_libs \<Rightarrow> scored list \<Rightarrow> scored list" where
  "zscore_pass lib df = fold (zscore_step lib) (unique (map procedure_code df)) df"

text \<open>\<^verbatim>\<open>df['is_cost_anomaly'] = df['cost_z_score'] > 3\<close> and its sibling.\<close>

definition flag_anomalies :: "scored list \<Rightarrow> scored list" where
  "flag_anomalies df =
     map (\<lambda>r. r\<lparr>is_volume_anomaly := claims_per_ben_z_score r > 3\<rparr>)
       (map (\<lambda>r. r\<lparr>is_cost_anomaly := cost_z_score r > 3\<rparr>) df)"

subsection \<open>The isolation-forest pass\<close>

text \<open>\<^verbatim>\<open>X = df[features].fillna(0)\<close>; none of the five columns holds a missing value.\<close>

definition features :: "scored list \<Rightarrow> real list list" where
  "features df =
     map (\<lambda>r. [cost_per_claim r, claims_per_beneficiary r, paid r,
                of_int (claims r), of_int (beneficiaries r)]) df"

text \<open>\<^verbatim>\<open>X.iloc[sample_indices]\<close>: a position outside the table raises IndexError.\<close>

definition iloc :: "'a list \<Rightarrow> nat list \<Rightarrow> error + 'a list" where
  "iloc X idx = (if \<forall>i \<in> set idx. i < length X then Inr (map (\<lambda>i. X ! i) idx)
                 else Inl IndexError)"

text \<open>The indices drawn in the sampling branch.\<close>

definition sample_indices :: "('g, 's, 'f) py_libs \<Rightarrow> 'g \<Rightarrow> real list list \<Rightarrow> nat list" where
  "sample_indices lib g X = random_choice lib g (length X) 100000"

text \<open>The table of predictions \<open>== -1\<close>, by either branch of \<^verbatim>\<open>if len(X) > 100000\<close>.\<close>

definition ml_predictions ::
  "('g, 's, 'f) py_libs \<Rightarrow> 'g \<Rightarrow> real list list \<Rightarrow> error + bool list" where
  "ml_predictions lib g X =
     (if length X > 100000 then
        (case iloc X (sample_indices lib g X) of
           Inl e \<Rightarrow> Inl e
         | Inr X_sample \<Rightarrow>
             let scaler = scaler_fit lib X_sample;
                 X_scaled = scaler_transform lib scaler X_sample;
                 iso_forest = forest_fit lib X_scaled;
                 X_full_scaled = scaler_transform lib scaler X
             in Inr (map (\<lambda>p. p = - 1) (forest_predict lib iso_forest X_full_scaled)))
      else
        let scaler = scaler_fit lib X;
            X_scaled = scaler_transform lib scaler X;
            iso_forest = forest_fit lib X_scaled
        in Inr (map (\<lambda>p. p = - 1) (forest_predict lib iso_forest X_scaled)))"

text \<open>\<^verbatim>\<open>df['is_ml_anomaly'] = values\<close>: pandas raises ValueError unless there is one value
  per row.\<close>

definition set_is_ml_anomaly :: "scored list \<Rightarrow> bool list \<Rightarrow> error + scored list" where
  "set_is_ml_anomaly df flags =
     (if length flags \<noteq> length df then Inl ValueError
      else Inr (map (\<lambda>(r, f). r\<lparr>is_ml_anomaly := f\<rparr>) (zip df flags)))"

subsection \<open>The composite score\<close>

definition composite_stage :: "scored list \<Rightarrow> scored list" where
  "composite_stage df =
     (let d0 = map (\<lambda>r. r\<lparr>fraud_risk_score := 0\<rparr>) df;
          d1 = map (\<lambda>r. if cost_z_score r > 3
                         then r\<lparr>fraud_risk_score :=
                                  fraud_risk_score r + min 30 (cost_z_score r * 5)\<rparr>
                         else r) d0;
          d2 = map (\<lambda>r. if claims_per_ben_z_score r > 3
                         then r\<lparr>fraud_risk_score :=
                                  fraud_risk_score r + min 30 (claims_per_ben_z_score r * 5)\<rparr>
                         else r) d1;
          d3 = map (\<lambda>r. if is_ml_anomaly r
                         then r\<lparr>fraud_risk_score := fraud_risk_score r + 25\<rparr>
                         else r) d2;
          spending_percentile = map (\<lambda>r. rank_pct (map paid d3) (paid r)) d3;
          d4 = map (\<lambda>(r, p). if p > 0.95
                              then r\<lparr>fraud_risk_score := fraud_risk_score r + 15\<rparr>
                              else r) (zip d3 spending_percentile)
      in map (\<lambda>r. r\<lparr>fraud_risk_score := min 100 (fraud_risk_score r)\<rparr>) d4)"

subsection \<open>The whole pass\<close>

text \<open>The table as the pass first extends it: both z-score columns \<open>0.0\<close>.\<close>

definition init_scored :: "txn \<Rightarrow> scored" where
  "init_scored t =
     \<lparr>billing_npi = billing_npi t, procedure_code = procedure_code t,
      claim_month = claim_month t, beneficiaries = beneficiaries t, claims = claims t,
      paid = paid t, cost_per_claim = cost_per_claim t,
      claims_per_beneficiary = claims_per_beneficiary t,
      cost_z_score = 0, claims_per_ben_z_score = 0,
      is_cost_anomaly = False, is_volume_anomaly = False, is_ml_anomaly = False,
      fraud_risk_score = 0\<rparr>"

text \<open>
  \<^verbatim>\<open>pd.DataFrame([])\<close> has no columns, so on an empty buffer
  \<^verbatim>\<open>df['procedure_code']\<close> raises KeyError.
\<close>

definition calculate_fraud_scores ::
  "('g, 's, 'f) py_libs \<Rightarrow> 'g \<Rightarrow> txn list \<Rightarrow> error + scored list" where
  "calculate_fraud_scores lib g rows =
     (if rows = [] then Inl KeyError
      else
        let df = flag_anomalies (zscore_pass lib (map init_scored rows))
        in case ml_predictions lib g (features df) of
             Inl e \<Rightarrow> Inl e
           | Inr flags \<Rightarrow>
               (case set_is_ml_anomaly df flags of
                  Inl e \<Rightarrow> Inl e
                | Inr df' \<Rightarrow> Inr (composite_stage df')))"

section \<open>The chunk loop of \<^verbatim>\<open>process_file\<close>\<close>

text \<open>
  A chunk as \<^verbatim>\<open>pd.read_csv\<close> yields it, after
  \<^verbatim>\<open>chunk.columns = chunk.columns.str.upper()\<close>: its column labels, taken to be distinct,
  and its rows, each giving the cell under every label.
\<close>

record raw_chunk =
  columns :: "string list"
  body :: "(string \<Rightarrow> cell) list"

definition required_cols :: "(string \<times> string list) list" where
  "required_cols =
     [(''billing_npi'', [''BILLING_PROVIDER_NPI_NUM'', ''BILLING_NPI'', ''NPI'']),
      (''servicing_npi'', [''SERVICING_PROVIDER_NPI_NUM'', ''SERVICING_NPI'']),
      (''procedure_code'', [''HCPCS_CODE'', ''PROCEDURE_CODE'', ''CODE'']),
      (''claim_month'', [''CLAIM_FROM_MONTH'', ''CLAIM_MONTH'', ''MONTH'']),
      (''beneficiaries'', [''TOTAL_UNIQUE_BENEFICIARIES'', ''BENEFICIARIES'', ''BENE_COUNT'']),
      (''claims'', [''TOTAL_CLAIMS'', ''CLAIMS'', ''CLAIM_COUNT'']),
      (''paid'', [''TOTAL_PAID'', ''PAID'', ''AMOUNT''])]"

text \<open>
  The loop that fills \<^verbatim>\<open>col_map\<close>: for each target the first accepted name that is a
  column of the chunk, as a list of pairs (name, target). The accepted names of different
  targets are disjoint, so the dictionary has one key per pair.
\<close>

definition col_map :: "string list \<Rightarrow> (string \<times> string) list" where
  "col_map cols =
     concat (map (\<lambda>(target, possible_names).
                    case find (\<lambda>name. name \<in> set cols) possible_names of
                      None \<Rightarrow> []
                    | Some name \<Rightarrow> [(name, target)]) required_cols)"

text \<open>\<^verbatim>\<open>chunk.rename(columns=col_map)\<close>, row by row.\<close>

definition rename :: "(string \<times> string) list \<Rightarrow> (string \<Rightarrow> cell) \<Rightarrow> string \<Rightarrow> cell" where
  "rename cm row label =
     (case find (\<lambda>(name, target). target = label) cm of
        Some (name, target) \<Rightarrow> row name
      | None \<Rightarrow> row label)"

text \<open>
  \<^verbatim>\<open>pd.to_numeric(..., errors='coerce').fillna(0)\<close> and \<^verbatim>\<open>.astype(int)\<close>, the cast of
  numpy from float64 to int64: it truncates towards zero, and a value outside the range of
  int64 becomes the least int64.
\<close>

definition to_numeric_fillna :: "cell \<Rightarrow> real" where
  "to_numeric_fillna c = (case c of Num x \<Rightarrow> x | _ \<Rightarrow> 0)"

definition astype_int :: "real \<Rightarrow> int" where
  "astype_int x =
     (let t = (if x \<ge> 0 then \<lfloor>x\<rfloor> else \<lceil>x\<rceil>)
      in if - (2 ^ 63) \<le> t \<and> t < 2 ^ 63 then t else - (2 ^ 63))"

definition clean :: "(string \<Rightarrow> cell) \<Rightarrow> clean_row" where
  "clean row =
     \<lparr>billing_npi = row ''billing_npi'',
      procedure_code = row ''procedure_code'',
      claim_month = row ''claim_month'',
      beneficiaries = astype_int (to_numeric_fillna (row ''beneficiaries'')),
      claims = astype_int (to_numeric_fillna (row ''claims'')),
      paid = to_numeric_fillna (row ''paid'')\<rparr>"

definition valid_row :: "clean_row \<Rightarrow> bool" where
  "valid_row r \<longleftrightarrow> billing_npi r \<noteq> Null \<and> paid r > 0 \<and> claims r > 0 \<and> beneficiaries r > 0"

definition derive :: "clean_row \<Rightarrow> txn" where
  "derive r =
     \<lparr>billing_npi = billing_npi r, procedure_code = procedure_code r,
      claim_month = claim_month r, beneficiaries = beneficiaries r, claims = claims r,
      paid = paid r,
      cost_per_claim = paid r / of_int (claims r),
      claims_per_beneficiary = of_int (claims r) / of_int (beneficiaries r)\<rparr>"

subsection \<open>\<^verbatim>\<open>_update_benchmarks\<close>\<close>

record benchmark =
  costs :: "real list"
  claims_per_ben :: "real list"

text \<open>
  One iteration of \<^verbatim>\<open>for proc_code in chunk['procedure_code'].unique()\<close>. For a missing
  code the selection is empty and the entry receives nothing.
\<close>

definition update_benchmarks_step ::
  "txn list \<Rightarrow> cell \<Rightarrow> (cell \<rightharpoonup> benchmark) \<Rightarrow> (cell \<rightharpoonup> benchmark)" where
  "update_benchmarks_step chunk proc_code bm =
     (let proc_data = filter (\<lambda>r. cell_eq (procedure_code r) proc_code) chunk;
          b = (case bm proc_code of
                 None \<Rightarrow> \<lparr>costs = [], claims_per_ben = []\<rparr>
               | Some b \<Rightarrow> b)
      in bm(proc_code \<mapsto>
              \<lparr>costs = costs b @ map cost_per_claim proc_data,
               claims_per_ben = claims_per_ben b @ map claims_per_beneficiary proc_data\<rparr>))"

definition update_benchmarks :: "txn list \<Rightarrow> (cell \<rightharpoonup> benchmark) \<Rightarrow> (cell \<rightharpoonup> benchmark)" where
  "update_benchmarks chunk bm =
     fold (update_benchmarks_step chunk) (unique (map procedure_code chunk)) bm"

subsection \<open>\<^verbatim>\<open>_update_provider_stats\<close>\<close>

record provider_stat =
  total_spending :: real
  total_claims :: int
  total_beneficiaries :: int
  unique_procedures :: int

text \<open>\<^verbatim>\<open>nunique\<close>: the number of distinct values that are not missing.\<close>

definition nunique :: "cell list \<Rightarrow> int" where
  "nunique cs = int (length (remdups (filter (\<lambda>c. c \<noteq> Null) cs)))"

text \<open>
  One row of \<^verbatim>\<open>chunk.groupby('billing_npi').agg(...)\<close> and its use in the loop body.
  \<^verbatim>\<open>groupby\<close> has one group per provider key that is not missing; every key is visited
  once, so the order of the groups does not show in the dictionary.
\<close>

definition update_provider_step ::
  "txn list \<Rightarrow> cell \<Rightarrow> (cell \<rightharpoonup> provider_stat) \<Rightarrow> (cell \<rightharpoonup> provider_stat)" where
  "update_provider_step chunk npi ps =
     (let grp = filter (\<lambda>r. billing_npi r = npi) chunk;
          old = (case ps npi of
                   None \<Rightarrow> \<lparr>total_spending = 0, total_claims = 0,
                            total_beneficiaries = 0, unique_procedures = 0\<rparr>
                 | Some s \<Rightarrow> s)
      in ps(npi \<mapsto>
              \<lparr>total_spending = total_spending old + sum_list (map paid grp),
               total_claims = total_claims old + sum_list (map claims grp),
               total_beneficiaries = total_beneficiaries old + sum_list (map beneficiaries grp),
               unique_procedures =
                 max (unique_procedures old) (nunique (map procedure_code grp))\<rparr>))"

definition update_provider_stats ::
  "txn list \<Rightarrow> (cell \<rightharpoonup> provider_stat) \<Rightarrow> (cell \<rightharpoonup> provider_stat)" where
  "update_provider_stats chunk ps =
     fold (update_provider_step chunk)
       (filter (\<lambda>npi. npi \<noteq> Null) (unique (map billing_npi chunk))) ps"

subsection \<open>The loop body and the whole run\<close>

record detector =
  procedure_benchmarks :: "cell \<rightharpoonup> benchmark"
  provider_stats :: "cell \<rightharpoonup> provider_stat"
  all_transactions :: "txn list"

definition init_detector :: detector where
  "init_detector =
     \<lparr>procedure_benchmarks = Map.empty, provider_stats = Map.empty, all_transactions = []\<rparr>"

text \<open>The body of \<^verbatim>\<open>for chunk in pd.read_csv(...)\<close>; both \<^verbatim>\<open>continue\<close> statements leave
  the detector as it is.\<close>

definition process_chunk :: "raw_chunk \<Rightarrow> detector \<Rightarrow> detector" where
  "process_chunk chunk st =
     (let cm = col_map (columns chunk)
      in if length cm < length required_cols then st
         else
           let cleaned = map (\<lambda>row. clean (rename cm row)) (body chunk);
               valid = filter valid_row cleaned
           in if length valid = 0 then st
              else
                let recs = map derive valid
                in st\<lparr>all_transactions := all_transactions st @ recs,
                      procedure_benchmarks := update_benchmarks recs (procedure_benchmarks st),
                      provider_stats := update_provider_stats recs (provider_stats st)\<rparr>)"

text \<open>
  The input file after its header is read and upper-cased: the column labels and the data
  rows. \<^verbatim>\<open>pd.read_csv(input_file, chunksize=n)\<close> yields the rows \<open>n\<close> at a time, every
  chunk under the labels of the one header; \<open>n = 0\<close> raises ValueError.
\<close>

record csv_file =
  header :: "string list"
  records :: "(string \<Rightarrow> cell) list"

function chunks_of :: "nat \<Rightarrow> 'a list \<Rightarrow> 'a list list" where
  "chunks_of n xs = (if n = 0 \<or> xs = [] then [] else take n xs # chunks_of n (drop n xs))"
  by pat_completeness auto
termination
  by (relation "measure (\<lambda>(n, xs). length xs)") auto

declare chunks_of.simps [simp del]

definition read_csv :: "nat \<Rightarrow> csv_file \<Rightarrow> raw_chunk list" where
  "read_csv chunk_size f =
     map (\<lambda>rows. \<lparr>columns = header f, body = rows\<rparr>) (chunks_of chunk_size (records f))"

text \<open>
  \<^verbatim>\<open>process_file\<close> of a detector made with \<open>chunk_size\<close>: \<open>None\<close> is an input path that
  does not exist. The result is the scored table handed to \<^verbatim>\<open>_generate_reports\<close>, or the
  exception that the handler at the end of \<^verbatim>\<open>process_file\<close> catches to make the run
  return \<^verbatim>\<open>False\<close>.
\<close>

definition process_file ::
  "('g, 's, 'f) py_libs \<Rightarrow> 'g \<Rightarrow> nat \<Rightarrow> csv_file option \<Rightarrow> error + scored list" where
  "process_file lib g chunk_size input =
     (case input of
        None \<Rightarrow> Inl FileNotFound
      | Some f \<Rightarrow>
          if chunk_size = 0 then Inl ValueError
          else calculate_fraud_scores lib g
                 (all_transactions (fold process_chunk (read_csv chunk_size f) init_detector)))"

section \<open>Row-wise view of the scoring pass\<close>

text \<open>
  The definitions of this section are not code of the program. They describe, row by row,
  what the passes above compute on whole tables, and the lemmas below prove that they do.
\<close>

text \<open>The values of one metric over the rows that compare equal to a procedure code.\<close>

definition group_metric ::
  "('a txn_scheme \<Rightarrow> real) \<Rightarrow> cell \<Rightarrow> 'a txn_scheme list \<Rightarrow> real list" where
  "group_metric metric c df = map metric (filter (\<lambda>q. cell_eq (procedure_code q) c) df)"

text \<open>The z-score a row ends with, given the value \<open>old\<close> it held before the loop.\<close>

definition z_value :: "('g, 's, 'f) py_libs \<Rightarrow> real \<Rightarrow> real list \<Rightarrow> real \<Rightarrow> real" where
  "z_value lib old grp x =
     (if length grp < 3 then old
      else if series_std lib grp > 0 then (x - series_mean lib grp) / series_std lib grp
      else old)"

definition z_row ::
  "('g, 's, 'f) py_libs \<Rightarrow> scored list \<Rightarrow> scored \<Rightarrow> scored" where
  "z_row lib df r =
     r\<lparr>cost_z_score :=
         z_value lib (cost_z_score r) (group_metric cost_per_claim (procedure_code r) df)
           (cost_per_claim r),
       claims_per_ben_z_score :=
         z_value lib (claims_per_ben_z_score r)
           (group_metric claims_per_beneficiary (procedure_code r) df)
           (claims_per_beneficiary r)\<rparr>"

text \<open>The effect of the loop iterations for the codes in \<open>S\<close> on one row.\<close>

definition z_upd ::
  "('g, 's, 'f) py_libs \<Rightarrow> cell set \<Rightarrow> scored list \<Rightarrow> scored \<Rightarrow> scored" where
  "z_upd lib S df r = (if procedure_code r \<noteq> Null \<and> procedure_code r \<in> S then z_row lib df r else r)"

definition z_cost ::
  "('g, 's, 'f) py_libs \<Rightarrow> txn list \<Rightarrow> txn \<Rightarrow> real" where
  "z_cost lib rows t =
     z_value lib 0 (group_metric cost_per_claim (procedure_code t) rows) (cost_per_claim t)"

definition z_cpb ::
  "('g, 's, 'f) py_libs \<Rightarrow> txn list \<Rightarrow> txn \<Rightarrow> real" where
  "z_cpb lib rows t =
     z_value lib 0 (group_metric claims_per_beneficiary (procedure_code t) rows)
       (claims_per_beneficiary t)"

text \<open>A row after the z-score loop and the two flag assignments.\<close>

definition z_stage ::
  "('g, 's, 'f) py_libs \<Rightarrow> txn list \<Rightarrow> txn \<Rightarrow> scored" where
  "z_stage lib rows t =
     (init_scored t)\<lparr>cost_z_score := z_cost lib rows t,
                     claims_per_ben_z_score := z_cpb lib rows t,
                     is_cost_anomaly := z_cost lib rows t > 3,
                     is_volume_anomaly := z_cpb lib rows t > 3\<rparr>"

text \<open>The first three contributions to the score of a row, and all four.\<close>

definition base3 :: "scored \<Rightarrow> scored" where
  "base3 r =
     r\<lparr>fraud_risk_score :=
         (if cost_z_score r > 3 then min 30 (cost_z_score r * 5) else 0)
       + (if claims_per_ben_z_score r > 3 then min 30 (claims_per_ben_z_score r * 5) else 0)
       + (if is_ml_anomaly r then 25 else 0)\<rparr>"

definition contributions :: "real list \<Rightarrow> scored \<Rightarrow> real" where
  "contributions paids r =
     (if cost_z_score r > 3 then min 30 (cost_z_score r * 5) else 0)
   + (if claims_per_ben_z_score r > 3 then min 30 (claims_per_ben_z_score r * 5) else 0)
   + (if is_ml_anomaly r then 25 else 0)
   + (if rank_pct paids (paid r) > 0.95 then 15 else 0)"

text \<open>The scored row of a buffered transaction, given its prediction.\<close>

definition score_row ::
  "('g, 's, 'f) py_libs \<Rightarrow> txn list \<Rightarrow> txn \<Rightarrow> bool \<Rightarrow> scored" where
  "score_row lib rows t ml =
     (let r = (init_scored t)\<lparr>cost_z_score := z_cost lib rows t,
                 claims_per_ben_z_score := z_cpb lib rows t,
                 is_cost_anomaly := z_cost lib rows t > 3,
                 is_volume_anomaly := z_cpb lib rows t > 3,
                 is_ml_anomaly := ml\<rparr>
      in r\<lparr>fraud_risk_score := min 100 (contributions (map paid rows) r)\<rparr>)"

definition features_of :: "txn list \<Rightarrow> real list list" where
  "features_of rows =
     map (\<lambda>r. [cost_per_claim r, claims_per_beneficiary r, paid r,
                of_int (claims r), of_int (beneficiaries r)]) rows"

text \<open>
  The number of distinct procedure codes a provider has within one chunk, and the
  high-water mark held for a provider (0 when the provider has no entry).
\<close>

definition chunk_count :: "cell \<Rightarrow> txn list \<Rightarrow> int" where
  "chunk_count npi chunk = nunique (map procedure_code (filter (\<lambda>r. billing_npi r = npi) chunk))"

definition unique_of :: "provider_stat option \<Rightarrow> int" where
  "unique_of s = (case s of None \<Rightarrow> 0 | Some st \<Rightarrow> unique_procedures st)"

section \<open>What the libraries promise\<close>

text \<open>
  The part of the documented behaviour of numpy and scikit-learn that the sampling branch
  relies on: \<^verbatim>\<open>np.random.choice(n, k, replace=False)\<close> with \<open>k \<le> n\<close> returns \<open>k\<close> distinct
  positions below \<open>n\<close>; \<^verbatim>\<open>transform\<close> and \<^verbatim>\<open>predict\<close> return one row, respectively one
  label, for each row they are given.
\<close>

definition library_contract :: "('g, 's, 'f) py_libs \<Rightarrow> 'g \<Rightarrow> bool" where
  "library_contract lib g \<longleftrightarrow>
     (\<forall>n k. k \<le> n \<longrightarrow>
        length (random_choice lib g n k) = k \<and>
        distinct (random_choice lib g n k) \<and>
        (\<forall>i \<in> set (random_choice lib g n k). i < n)) \<and>
     (\<forall>s X. length (scaler_transform lib s X) = length X) \<and>
     (\<forall>f X. length (forest_predict lib f X) = length X)"

section \<open>Example data\<close>

text \<open>
  A stand-in for the libraries: its statistics are exact, its outlier model gives every
  row the same prediction \<open>p\<close> and its sampler takes the first \<open>k\<close> positions.
\<close>

definition const_lib :: "int \<Rightarrow> (unit, unit, unit) py_libs" where
  "const_lib p =
     \<lparr>series_mean = mean, series_std = std,
      random_choice = (\<lambda>g n k. [0..<k]),
      scaler_fit = (\<lambda>X. ()),
      scaler_transform = (\<lambda>s X. X),
      forest_fit = (\<lambda>X. ()),
      forest_predict = (\<lambda>f X. map (\<lambda>x. p) X)\<rparr>"

text \<open>
  Sixteen transactions of one procedure code: fifteen alike and one with seventeen times
  their cost per claim and claims per beneficiary. The group means are 2, the sample
  standard deviations 4, so the outlier has both z-scores \<open>15/4\<close>.
\<close>

definition low_row :: txn where
  "low_row =
     \<lparr>billing_npi = Num 1, procedure_code = Text ''A'', claim_month = Text ''2024-01'',
      beneficiaries = 1, claims = 1, paid = 1,
      cost_per_claim = 1, claims_per_beneficiary = 1\<rparr>"

definition high_row :: txn where
  "high_row =
     \<lparr>billing_npi = Num 2, procedure_code = Text ''A'', claim_month = Text ''2024-01'',
      beneficiaries = 1, claims = 17, paid = 289,
      cost_per_claim = 17, claims_per_beneficiary = 17\<rparr>"

definition demo_rows :: "txn list" where
  "demo_rows = replicate 15 low_row @ [high_row]"

definition scored_low :: scored where
  "scored_low =
     \<lparr>billing_npi = Num 1, procedure_code = Text ''A'', claim_month = Text ''2024-01'',
      beneficiaries = 1, claims = 1, paid = 1,
      cost_per_claim = 1, claims_per_beneficiary = 1,
      cost_z_score = - 1 / 4, claims_per_ben_z_score = - 1 / 4,
      is_cost_anomaly = False, is_volume_anomaly = False, is_ml_anomaly = True,
      fraud_risk_score = 25\<rparr>"

definition scored_high :: scored where
  "scored_high =
     \<lparr>billing_npi = Num 2, procedure_code = Text ''A'', claim_month = Text ''2024-01'',
      beneficiaries = 1, claims = 17, paid = 289,
      cost_per_claim = 17, claims_per_beneficiary = 17,
      cost_z_score = 15 / 4, claims_per_ben_z_score = 15 / 4,
      is_cost_anomaly = True, is_volume_anomaly = True, is_ml_anomaly = True,
      fraud_risk_score = 155 / 2\<rparr>"

definition demo_scored :: "scored list" where
  "demo_scored = replicate 15 scored_low @ [scored_high]"



definition scored_flat :: scored where
  "scored_flat =
     \<lparr>billing_npi = Num 1, procedure_code = Text ''A'', claim_month = Text ''2024-01'',
      beneficiaries = 1, claims = 1, paid = 1,
      cost_per_claim = 1, claims_per_beneficiary = 1,
      cost_z_score = 0, claims_per_ben_z_score = 0,
      is_cost_anomaly = False, is_volume_anomaly = False, is_ml_anomaly = False,
      fraud_risk_score = 0\<rparr>"



text \<open>Two transactions with the same paid amount, and their scored rows.\<close>

definition pair_rows :: "txn list" where
  "pair_rows = replicate 2 low_row"

definition pair_scored :: "scored list" where
  "pair_scored = replicate 2 scored_flat"

section \<open>The 95th percentile in the words of the specification\<close>

text \<open>
  The specification speaks of rows whose paid amount is at or above the 95th percentile of
  the paid amounts of the whole population. The definition below reads that percentile by
  the nearest-rank rule: the smallest amount that at least 95 percent of the population do
  not exceed. It is not code of the program, which ranks the amounts instead. On a
  population whose amounts are all equal every rule for percentiles gives that amount.
\<close>

definition percentile_95_spec :: "real list \<Rightarrow> real" where
  "percentile_95_spec xs = sort xs ! (nat \<lceil>0.95 * real (length xs)\<rceil> - 1)"

section \<open>Further example data\<close>

text \<open>A buffer of 100,001 transactions.\<close>

definition big_rows :: "txn list" where
  "big_rows = replicate 100001 low_row"

text \<open>
  A second stand-in for the libraries, within what they promise: the statistics are exact,
  the sampler starts at the position given by the generator state and wraps around, the
  standardizer changes nothing, and the outlier model flags the rows it was not fitted on. With it, 100,001 transactions
  that differ in their paid amounts.
\<close>

definition memo_lib :: "(nat, unit, real list list) py_libs" where
  "memo_lib =
     \<lparr>series_mean = mean, series_std = std,
      random_choice = (\<lambda>g n k. map (\<lambda>i. (i + g) mod n) [0..<k]),
      scaler_fit = (\<lambda>X. ()),
      scaler_transform = (\<lambda>s X. X),
      forest_fit = (\<lambda>X. X),
      forest_predict = (\<lambda>f X. map (\<lambda>x. if x \<in> set f then 1 else - 1) X)\<rparr>"

definition row_of :: "nat \<Rightarrow> txn" where
  "row_of i =
     \<lparr>billing_npi = Num 1, procedure_code = Text ''A'', claim_month = Text ''2024-01'',
      beneficiaries = 1, claims = 1, paid = real i + 1,
      cost_per_claim = real i + 1, claims_per_beneficiary = 1\<rparr>"

definition varied_rows :: "txn list" where
  "varied_rows = map row_of [0..<100001]"

text \<open>
  One provider in two chunks: three distinct procedure codes in the first, five in the
  second, two of them in both.
\<close>

definition proc_row :: "string \<Rightarrow> txn" where
  "proc_row code =
     \<lparr>billing_npi = Num 7, procedure_code = Text code, claim_month = Text ''2024-01'',
      beneficiaries = 1, claims = 1, paid = 1,
      cost_per_claim = 1, claims_per_beneficiary = 1\<rparr>"

definition chunk_a :: "txn list" where
  "chunk_a = map proc_row [''a'', ''b'', ''c'']"

definition chunk_b :: "txn list" where
  "chunk_b = map proc_row [''b'', ''c'', ''d'', ''e'', ''f'']"

text \<open>
  A chunk of one row with all seven required columns and the transaction that it buffers;
  and a file of three rows without any column for the paid amount.
\<close>

definition good_chunk :: raw_chunk where
  "good_chunk =
     \<lparr>columns = [''BILLING_NPI'', ''SERVICING_NPI'', ''HCPCS_CODE'', ''CLAIM_MONTH'',
                 ''BENEFICIARIES'', ''CLAIMS'', ''PAID''],
      body = [(\<lambda>label. if label = ''HCPCS_CODE'' then Text ''A''
                        else if label = ''CLAIM_MONTH'' then Text ''2024-01''
                        else if label = ''CLAIMS'' then Num 2
                        else if label = ''PAID'' then Num 10
                        else Num 1)]\<rparr>"

definition bad_file :: csv_file where
  "bad_file =
     \<lparr>header = [''BILLING_NPI'', ''SERVICING_NPI'', ''HCPCS_CODE'', ''CLAIM_MONTH'',
                ''BENEFICIARIES'', ''CLAIMS''],
      records = replicate 3
                  (\<lambda>label. if label = ''HCPCS_CODE'' then Text ''A''
                           else if label = ''CLAIM_MONTH'' then Text ''2024-01''
                           else if label = ''CLAIMS'' then Num 2
                           else Num 1)\<rparr>"

definition good_txn :: txn where
  "good_txn =
     \<lparr>billing_npi = Num 1, procedure_code = Text ''A'', claim_month = Text ''2024-01'',
      beneficiaries = 1, claims = 2, paid = 10,
      cost_per_claim = 5, claims_per_beneficiary = 2\<rparr>"

text \<open>
  The sixteen transactions again, with two of the fifteen now paying as much as the outlier
  (289 for 289 claims of 289 beneficiaries, so the same cost per claim and claims per
  beneficiary as before): three rows tie for the highest paid amount.
\<close>

definition tie_row :: txn where
  "tie_row =
     \<lparr>billing_npi = Num 1, procedure_code = Text ''A'', claim_month = Text ''2024-01'',
      beneficiaries = 289, claims = 289, paid = 289,
      cost_per_claim = 1, claims_per_beneficiary = 1\<rparr>"

definition tied_rows :: "txn list" where
  "tied_rows = replicate 13 low_row @ replicate 2 tie_row @ [high_row]"

definition scored_tie :: scored where
  "scored_tie =
     \<lparr>billing_npi = Num 1, procedure_code = Text ''A'', claim_month = Text ''2024-01'',
      beneficiaries = 289, claims = 289, paid = 289,
      cost_per_claim = 1, claims_per_beneficiary = 1,
      cost_z_score = - 1 / 4, claims_per_ben_z_score = - 1 / 4,
      is_cost_anomaly = False, is_volume_anomaly = False, is_ml_anomaly = True,
      fraud_risk_score = 25\<rparr>"

definition scored_tied_high :: scored where
  "scored_tied_high =
     \<lparr>billing_npi = Num 2, procedure_code = Text ''A'', claim_month = Text ''2024-01'',
      beneficiaries = 1, claims = 17, paid = 289,
      cost_per_claim = 17, claims_per_beneficiary = 17,
      cost_z_score = 15 / 4, claims_per_ben_z_score = 15 / 4,
      is_cost_anomaly = True, is_volume_anomaly = True, is_ml_anomaly = True,
      fraud_risk_score = 125 / 2\<rparr>"

definition tied_scored :: "scored list" where
  "tied_scored = replicate 13 scored_low @ replicate 2 scored_tie @ [scored_tied_high]"







section \<open>Lemmas: the passes, row by row\<close>

lemma zip_map_self: "zip xs (map f xs) = map (\<lambda>x. (x, f x)) xs"
  by (induction xs) auto

lemma map_fst_zip_fun:
  "length ys = length xs \<Longrightarrow> map (\<lambda>p. f (fst p)) (zip xs ys) = map f xs"
  by (induction xs ys rule: list_induct2') auto

lemma map2_const:
  "length ys = length xs \<Longrightarrow> map2 f xs (map (\<lambda>y. c) ys) = map (\<lambda>x. f x c) xs"
  by (induction xs ys rule: list_induct2') auto

lemma unique_set: "set (unique xs) = set xs"
  by (induction xs) auto

lemma unique_distinct: "distinct (unique xs)"
  by (induction xs) (auto simp: unique_set)

subsection \<open>The composite score\<close>

lemma composite_stage_rowwise:
  "composite_stage df =
     map (\<lambda>r. r\<lparr>fraud_risk_score := min 100 (contributions (map paid df) r)\<rparr>) df"
proof -
  define d0 where "d0 = map (\<lambda>r. r\<lparr>fraud_risk_score := 0\<rparr>) df"
  define d1 where "d1 = map (\<lambda>r. if cost_z_score r > 3
                         then r\<lparr>fraud_risk_score :=
                                  fraud_risk_score r + min 30 (cost_z_score r * 5)\<rparr>
                         else r) d0"
  define d2 where "d2 = map (\<lambda>r. if claims_per_ben_z_score r > 3
                         then r\<lparr>fraud_risk_score :=
                                  fraud_risk_score r + min 30 (claims_per_ben_z_score r * 5)\<rparr>
                         else r) d1"
  define d3 where "d3 = map (\<lambda>r. if is_ml_anomaly r
                         then r\<lparr>fraud_risk_score := fraud_risk_score r + 25\<rparr>
                         else r) d2"
  have d3: "d3 = map base3 df"
    unfolding d3_def d2_def d1_def d0_def map_map
    by (rule map_cong[OF refl]) (simp add: base3_def)
  have p: "map paid d3 = map paid df"
    by (simp add: d3 base3_def)
  have "composite_stage df =
     map (\<lambda>r. r\<lparr>fraud_risk_score := min 100 (fraud_risk_score r)\<rparr>)
      (map (\<lambda>(r, p). if p > 0.95
                              then r\<lparr>fraud_risk_score := fraud_risk_score r + 15\<rparr>
                              else r) (zip d3 (map (\<lambda>r. rank_pct (map paid d3) (paid r)) d3)))"
    unfolding composite_stage_def d3_def d2_def d1_def d0_def Let_def ..
  also have "\<dots> = map (\<lambda>r. r\<lparr>fraud_risk_score := min 100 (contributions (map paid df) r)\<rparr>) df"
    unfolding p zip_map_self map_map unfolding d3 map_map
    by (rule map_cong[OF refl]) (simp add: base3_def contributions_def)
  finally show ?thesis .
qed

subsection \<open>The z-score loop\<close>

lemma group_metric_map:
  assumes "\<And>r. r \<in> set df \<Longrightarrow> procedure_code (f r) = procedure_code r \<and> metric (f r) = metric r"
  shows "group_metric metric c (map f df) = group_metric metric c df"
  using assms by (induction df) (auto simp: group_metric_def)

lemma zscore_step_rowwise: "zscore_step lib c df = map (z_upd lib {c} df) df"
proof -
  define gc where "gc = group_metric cost_per_claim c df"
  define gp where "gp = group_metric claims_per_beneficiary c df"
  have g: "map cost_per_claim (filter (\<lambda>r. cell_eq (procedure_code r) c) df) = gc"
      "map claims_per_beneficiary (filter (\<lambda>r. cell_eq (procedure_code r) c) df) = gp"
    by (simp_all add: group_metric_def gc_def gp_def)
  have l: "length (filter (\<lambda>r. cell_eq (procedure_code r) c) df) = length gc"
    "length gp = length gc"
    by (simp_all add: gc_def gp_def group_metric_def)
  have row: "z_upd lib {c} df r =
      (if cell_eq (procedure_code r) c
       then r\<lparr>cost_z_score := z_value lib (cost_z_score r) gc (cost_per_claim r),
              claims_per_ben_z_score :=
                z_value lib (claims_per_ben_z_score r) gp (claims_per_beneficiary r)\<rparr>
       else r)" for r
    by (auto simp: z_upd_def z_row_def cell_eq_def gc_def gp_def)
  show ?thesis
    unfolding zscore_step_def Let_def g l row
    by (cases "length gc < 3"; cases "series_std lib gc > 0"; cases "series_std lib gp > 0")
       (simp_all add: z_value_def l map_idI)
qed

lemma z_row_fields [simp]:
  "procedure_code (z_row lib df r) = procedure_code r"
  "cost_per_claim (z_row lib df r) = cost_per_claim r"
  "claims_per_beneficiary (z_row lib df r) = claims_per_beneficiary r"
  by (simp_all add: z_row_def)

lemma z_upd_fields [simp]:
  "procedure_code (z_upd lib S df r) = procedure_code r"
  "cost_per_claim (z_upd lib S df r) = cost_per_claim r"
  "claims_per_beneficiary (z_upd lib S df r) = claims_per_beneficiary r"
  by (simp_all add: z_upd_def)

lemma z_row_map: "z_row lib (map (z_upd lib S df) df) = z_row lib df"
  by (rule ext) (simp add: z_row_def group_metric_map)

lemma z_upd_map: "z_upd lib T (map (z_upd lib S df) df) = z_upd lib T df"
  by (rule ext) (simp add: z_upd_def z_row_map)

lemma z_upd_compose:
  "c \<notin> T \<Longrightarrow> z_upd lib T df (z_upd lib {c} df r) = z_upd lib (insert c T) df r"
  by (auto simp: z_upd_def)

lemma fold_zscore_step:
  "distinct cs \<Longrightarrow> fold (zscore_step lib) cs df = map (z_upd lib (set cs) df) df"
proof (induction cs arbitrary: df)
  case Nil
  show ?case by (simp add: z_upd_def)
next
  case (Cons c cs)
  have "fold (zscore_step lib) (c # cs) df = fold (zscore_step lib) cs (map (z_upd lib {c} df) df)"
    by (simp add: zscore_step_rowwise)
  also have "\<dots> = map (z_upd lib (set cs) df) (map (z_upd lib {c} df) df)"
    using Cons by (simp add: z_upd_map)
  also have "\<dots> = map (z_upd lib (set (c # cs)) df) df"
    using Cons.prems by (simp add: z_upd_compose)
  finally show ?case .
qed

lemma z_row_Null: "procedure_code r = Null \<Longrightarrow> z_row lib df r = r"
  by (simp add: z_row_def z_value_def group_metric_def cell_eq_def)

lemma zscore_pass_rowwise: "zscore_pass lib df = map (z_row lib df) df"
proof -
  have "zscore_pass lib df = map (z_upd lib (set (map procedure_code df)) df) df"
    by (simp add: zscore_pass_def fold_zscore_step unique_distinct unique_set)
  also have "\<dots> = map (z_row lib df) df"
    by (rule map_cong[OF refl]) (auto simp: z_upd_def z_row_Null)
  finally show ?thesis .
qed

subsection \<open>The whole pass\<close>

lemma init_scored_fields [simp]:
  "billing_npi (init_scored t) = billing_npi t"
  "procedure_code (init_scored t) = procedure_code t"
  "claims (init_scored t) = claims t"
  "beneficiaries (init_scored t) = beneficiaries t"
  "paid (init_scored t) = paid t"
  "cost_per_claim (init_scored t) = cost_per_claim t"
  "claims_per_beneficiary (init_scored t) = claims_per_beneficiary t"
  "cost_z_score (init_scored t) = 0"
  "claims_per_ben_z_score (init_scored t) = 0"
  by (simp_all add: init_scored_def)

lemma group_metric_init:
  "group_metric cost_per_claim c (map init_scored rows) = group_metric cost_per_claim c rows"
  "group_metric claims_per_beneficiary c (map init_scored rows) =
     group_metric claims_per_beneficiary c rows"
  by (induction rows) (auto simp: group_metric_def)

lemma flag_zscore_init:
  "flag_anomalies (zscore_pass lib (map init_scored rows)) = map (z_stage lib rows) rows"
  unfolding zscore_pass_rowwise flag_anomalies_def map_map
  by (rule map_cong[OF refl])
     (simp add: z_row_def z_stage_def z_cost_def z_cpb_def group_metric_init)

lemma features_z_stage: "features (map (z_stage lib rows) rows') = features_of rows'"
  by (simp add: features_def features_of_def z_stage_def)

lemma calc_rowwise:
  "calculate_fraud_scores lib g rows =
     (if rows = [] then Inl KeyError
      else case ml_predictions lib g (features_of rows) of
             Inl e \<Rightarrow> Inl e
           | Inr flags \<Rightarrow>
               if length flags \<noteq> length rows then Inl ValueError
               else Inr (map2 (score_row lib rows) rows flags))"
proof (cases "rows = []")
  case True
  then show ?thesis by (simp add: calculate_fraud_scores_def)
next
  case False
  have comp: "composite_stage
        (map (\<lambda>(r, f). r\<lparr>is_ml_anomaly := f\<rparr>) (zip (map (z_stage lib rows) rows) flags))
     = map2 (score_row lib rows) rows flags" if "length flags = length rows" for flags
  proof -
    have p: "map paid (map (\<lambda>(r, f). r\<lparr>is_ml_anomaly := f\<rparr>)
                 (zip (map (z_stage lib rows) rows) flags)) = map paid rows"
      using that by (simp add: zip_map1 split_def comp_def z_stage_def map_fst_zip_fun)
    show ?thesis
      unfolding composite_stage_rowwise p
      by (simp add: zip_map1 split_def score_row_def z_stage_def Let_def)
  qed
  show ?thesis
    using False
    by (simp add: calculate_fraud_scores_def Let_def flag_zscore_init features_z_stage
          set_is_ml_anomaly_def comp split: sum.splits)
qed

lemma score_row_fields [simp]:
  "procedure_code (score_row lib rows t f) = procedure_code t"
  "paid (score_row lib rows t f) = paid t"
  "cost_per_claim (score_row lib rows t f) = cost_per_claim t"
  "claims_per_beneficiary (score_row lib rows t f) = claims_per_beneficiary t"
  "cost_z_score (score_row lib rows t f) = z_cost lib rows t"
  "claims_per_ben_z_score (score_row lib rows t f) = z_cpb lib rows t"
  "is_cost_anomaly (score_row lib rows t f) = (z_cost lib rows t > 3)"
  "is_volume_anomaly (score_row lib rows t f) = (z_cpb lib rows t > 3)"
  "is_ml_anomaly (score_row lib rows t f) = f"
  by (simp_all add: score_row_def Let_def)

lemma score_row_score:
  "fraud_risk_score (score_row lib rows t f) =
     min 100 ((if z_cost lib rows t > 3 then min 30 (z_cost lib rows t * 5) else 0)
            + (if z_cpb lib rows t > 3 then min 30 (z_cpb lib rows t * 5) else 0)
            + (if f then 25 else 0)
            + (if rank_pct (map paid rows) (paid t) > 0.95 then 15 else 0))"
  by (simp add: score_row_def Let_def contributions_def)

lemma calc_Inr:
  assumes "calculate_fraud_scores lib g rows = Inr out"
  obtains flags where "length flags = length rows" "out = map2 (score_row lib rows) rows flags"
    "ml_predictions lib g (features_of rows) = Inr flags" "rows \<noteq> []"
  using assms unfolding calc_rowwise
  by (auto split: if_splits sum.splits)

lemma calc_row:
  assumes "calculate_fraud_scores lib g rows = Inr out" "r \<in> set out"
  obtains t f where "t \<in> set rows" "r = score_row lib rows t f"
proof -
  from assms(1) obtain flags
    where fl: "length flags = length rows" "out = map2 (score_row lib rows) rows flags"
    by (rule calc_Inr)
  with assms(2) obtain t f where "(t, f) \<in> set (zip rows flags)" "r = score_row lib rows t f"
    by auto
  then show thesis using that by (auto dest: set_zip_leftD)
qed

lemma calc_paid:
  assumes "calculate_fraud_scores lib g rows = Inr out"
  shows "map paid out = map paid rows"
proof -
  from assms obtain flags
    where fl: "length flags = length rows" "out = map2 (score_row lib rows) rows flags"
    by (rule calc_Inr)
  show ?thesis unfolding fl(2) using fl(1)
    by (simp add: split_def comp_def map_fst_zip_fun)
qed

subsection \<open>The percentile rank in closed form\<close>

lemma sum_upt_real:
  "sum_list (map real [m..<m + k]) = real k * real m + real k * (real k - 1) / 2"
  by (induction k) (simp_all add: field_simps)

lemma rank_average_closed:
  assumes "x \<in> set xs"
  shows "rank_average xs x =
           real (length (filter (\<lambda>y. y < x) xs))
           + (real (length (filter (\<lambda>y. y = x) xs)) + 1) / 2"
proof -
  define lo where "lo = length (filter (\<lambda>y. y < x) xs)"
  define k where "k = length (filter (\<lambda>y. y = x) xs)"
  have "filter (\<lambda>y. y = x) xs \<noteq> []"
    using assms by (simp add: filter_empty_conv)
  then have k: "k > 0" by (simp add: k_def)
  have "rank_average xs x = sum_list (map real [(lo + 1)..<(lo + 1) + k]) / real k"
    by (simp add: rank_average_def lo_def k_def Let_def add.commute add.left_commute)
  also have "\<dots> = real lo + (real k + 1) / 2"
    unfolding sum_upt_real using k by (simp add: field_simps)
  finally show ?thesis by (simp add: lo_def k_def)
qed

subsection \<open>The example run\<close>

lemma const_lib_stats [simp]:
  "series_mean (const_lib p) = mean" "series_std (const_lib p) = std"
  by (simp_all add: const_lib_def)

lemma ml_small:
  "length X \<le> 100000 \<Longrightarrow> ml_predictions (const_lib p) g X = Inr (map (\<lambda>x. p = - 1) X)"
  by (simp add: ml_predictions_def const_lib_def comp_def)

lemma calc_const_lib:
  "rows \<noteq> [] \<Longrightarrow> length rows \<le> 100000 \<Longrightarrow>
   calculate_fraud_scores (const_lib p) g rows =
     Inr (map (\<lambda>t. score_row (const_lib p) rows t (p = - 1)) rows)"
  by (simp add: calc_rowwise ml_small features_of_def comp_def map2_const)

lemma sqrt16: "sqrt 16 = 4"
  using real_sqrt_abs[of 4] by simp

lemma grp_cost: "group_metric cost_per_claim (Text ''A'') demo_rows = replicate 15 1 @ [17]"
  by (simp add: group_metric_def demo_rows_def low_row_def high_row_def cell_eq_def)

lemma grp_cpb:
  "group_metric claims_per_beneficiary (Text ''A'') demo_rows = replicate 15 1 @ [17]"
  by (simp add: group_metric_def demo_rows_def low_row_def high_row_def cell_eq_def)

lemma mean_demo: "mean (replicate 15 1 @ [17]) = 2"
  by (simp add: mean_def sum_list_replicate)

lemma std_demo: "std (replicate 15 1 @ [17]) = 4"
  by (simp add: std_def mean_demo sum_list_replicate comp_def sqrt16)

lemma z_high: "z_cost (const_lib p) demo_rows high_row = 15/4" "z_cpb (const_lib p) demo_rows high_row = 15/4"
  by (simp_all add: z_cost_def z_cpb_def z_value_def high_row_def grp_cost grp_cpb
        mean_demo std_demo)

lemma z_low: "z_cost (const_lib p) demo_rows low_row = - 1/4" "z_cpb (const_lib p) demo_rows low_row = - 1/4"
  by (simp_all add: z_cost_def z_cpb_def z_value_def low_row_def grp_cost grp_cpb
        mean_demo std_demo)

lemma pct_high: "rank_pct (map paid demo_rows) (paid high_row) = 1"
  by (simp add: rank_pct_def rank_average_closed demo_rows_def low_row_def high_row_def)

lemma pct_low: "rank_pct (map paid demo_rows) (paid low_row) = 1 / 2"
  by (simp add: rank_pct_def rank_average_closed demo_rows_def low_row_def high_row_def)

lemma score_low: "score_row (const_lib p) demo_rows low_row True = scored_low"
  by (simp add: score_row_def Let_def contributions_def z_low pct_low)
     (simp add: init_scored_def low_row_def scored_low_def)

lemma score_high: "score_row (const_lib p) demo_rows high_row True = scored_high"
  by (simp add: score_row_def Let_def contributions_def z_high pct_high)
     (simp add: init_scored_def high_row_def scored_high_def)

lemma demo_run: "calculate_fraud_scores (const_lib (- 1)) () demo_rows = Inr demo_scored"
proof -
  have "demo_rows \<noteq> []" "length demo_rows \<le> 100000" by (simp_all add: demo_rows_def)
  then have "calculate_fraud_scores (const_lib (- 1)) () demo_rows
      = Inr (map (\<lambda>t. score_row (const_lib (- 1)) demo_rows t True) demo_rows)"
    by (simp add: calc_const_lib)
  also have "map (\<lambda>t. score_row (const_lib (- 1)) demo_rows t True) demo_rows = demo_scored"
    unfolding demo_scored_def by (subst (2) demo_rows_def) (simp add: score_low score_high)
  finally show ?thesis .
qed

lemma high_in_demo: "scored_high \<in> set demo_scored"
  by (simp add: demo_scored_def)

subsection \<open>Groups by plain equality\<close>




subsection \<open>The second example run\<close>









subsection \<open>The run on two equal amounts, and the rank condition in counts\<close>

lemma pair_run: "calculate_fraud_scores (const_lib 1) () pair_rows = Inr pair_scored"
proof -
  have z: "z_cost (const_lib 1) pair_rows low_row = 0" "z_cpb (const_lib 1) pair_rows low_row = 0"
    by (simp_all add: z_cost_def z_cpb_def z_value_def group_metric_def pair_rows_def
          low_row_def cell_eq_def)
  have p: "rank_pct (map paid pair_rows) (paid low_row) = 3 / 4"
    by (simp add: rank_pct_def rank_average_closed pair_rows_def)
  have s: "score_row (const_lib 1) pair_rows low_row False = scored_flat"
    by (simp add: score_row_def Let_def contributions_def z p)
       (simp add: init_scored_def low_row_def scored_flat_def)
  have "pair_rows \<noteq> []" "length pair_rows \<le> 100000" by (simp_all add: pair_rows_def)
  then have "calculate_fraud_scores (const_lib 1) () pair_rows
      = Inr (map (\<lambda>t. score_row (const_lib 1) pair_rows t False) pair_rows)"
    by (simp add: calc_const_lib)
  also have "map (\<lambda>t. score_row (const_lib 1) pair_rows t False) pair_rows = pair_scored"
    unfolding pair_scored_def by (subst (2) pair_rows_def) (simp add: s)
  finally show ?thesis .
qed

lemma rank_pct_above_iff:
  assumes "x \<in> set xs"
  shows "rank_pct xs x > 0.95 \<longleftrightarrow>
         19 * length xs < 10 * (2 * length (filter (\<lambda>y. y < x) xs)
                                + length (filter (\<lambda>y. y = x) xs) + 1)"
proof -
  define lo where "lo = length (filter (\<lambda>y. y < x) xs)"
  define k where "k = length (filter (\<lambda>y. y = x) xs)"
  define n where "n = length xs"
  have n: "n > 0" using assms by (auto simp: n_def)
  have "rank_pct xs x = (real lo + (real k + 1) / 2) / real n"
    by (simp add: rank_pct_def rank_average_closed[OF assms] lo_def k_def n_def)
  also have "\<dots> > 0.95 \<longleftrightarrow> 0.95 * real n < real lo + (real k + 1) / 2"
    using n by (simp add: pos_less_divide_eq)
  also have "\<dots> \<longleftrightarrow> real (19 * n) < real (10 * (2 * lo + k + 1))"
    by (simp add: field_simps)
  also have "\<dots> \<longleftrightarrow> 19 * n < 10 * (2 * lo + k + 1)"
    by (rule of_nat_less_iff)
  finally show ?thesis by (simp add: lo_def k_def n_def)
qed

subsection \<open>The sampling branch\<close>

lemma features_init: "features (map init_scored rows) = features_of rows"
  by (simp add: features_def features_of_def comp_def)

lemma map2_snd: "length ys = length xs \<Longrightarrow> map (\<lambda>p. f (snd p)) (zip xs ys) = map f ys"
  by (induction xs ys rule: list_induct2') auto

lemma ml_sampling_facts:
  assumes "library_contract lib g" "length rows > 100000"
  defines "X \<equiv> features_of rows"
  defines "idx \<equiv> sample_indices lib g X"
  defines "X_sample \<equiv> map (\<lambda>i. X ! i) idx"
  defines "flags \<equiv> map (\<lambda>p. p = - 1)
               (forest_predict lib
                  (forest_fit lib (scaler_transform lib (scaler_fit lib X_sample) X_sample))
                  (scaler_transform lib (scaler_fit lib X_sample) X))"
  shows "iloc X idx = Inr X_sample" "length X_sample = 100000" "distinct idx"
    "calculate_fraud_scores lib g rows = Inr (map2 (score_row lib rows) rows flags)"
    "length flags = length rows"
    "map is_ml_anomaly (map2 (score_row lib rows) rows flags) = flags"
proof -
  have lX: "length X = length rows" by (simp add: X_def features_of_def)
  have le: "100000 \<le> length X" using assms(2) lX by simp
  from assms(1) le have c: "length idx = 100000" "distinct idx" "\<forall>i \<in> set idx. i < length X"
    unfolding library_contract_def idx_def sample_indices_def by blast+
  show il: "iloc X idx = Inr X_sample"
    using c(3) by (simp add: iloc_def X_sample_def)
  show "length X_sample = 100000" by (simp add: X_sample_def c(1))
  show "distinct idx" by (rule c(2))
  show lf: "length flags = length rows"
    using assms(1) lX unfolding library_contract_def flags_def by simp
  have ml: "ml_predictions lib g X = Inr flags"
    using assms(2) lX il
    by (simp add: ml_predictions_def idx_def[symmetric] Let_def flags_def)
  have ne: "rows \<noteq> []" using assms(2) by auto
  show "calculate_fraud_scores lib g rows = Inr (map2 (score_row lib rows) rows flags)"
    using ne ml lf by (simp add: calc_rowwise X_def)
  show "map is_ml_anomaly (map2 (score_row lib rows) rows flags) = flags"
    using lf by (simp add: split_def comp_def map2_snd)
qed

lemma const_lib_contract: "library_contract (const_lib p) g"
  by (simp add: library_contract_def const_lib_def)


subsection \<open>A sampler that depends on the generator state\<close>

lemma rot_inj_le:
  assumes "b \<le> a" "a < n" "(a + g) mod n = (b + g) mod n"
  shows "a = (b::nat)"
proof -
  have "b + g \<le> a + g" using assms(1) by simp
  then have "n dvd (a + g) - (b + g)"
    using assms(3) by (simp add: mod_eq_dvd_iff_nat)
  then have d: "n dvd a - b" by simp
  have l: "a - b < n" using assms(2) by simp
  have "a - b = 0"
  proof (rule ccontr)
    assume "a - b \<noteq> 0"
    then have "0 < a - b" by simp
    with d have "n \<le> a - b" by (rule dvd_imp_le)
    with l show False by simp
  qed
  with assms(1) show ?thesis by simp
qed

lemma rot_inj:
  assumes "i < n" "j < n" "(i + g) mod n = (j + g) mod n"
  shows "i = (j::nat)"
proof (cases "j \<le> i")
  case True
  then show ?thesis using assms(1,3) by (rule rot_inj_le)
next
  case False
  then have "i \<le> j" by simp
  then have "j = i" using assms(2) assms(3)[symmetric] by (rule rot_inj_le)
  then show ?thesis by simp
qed

lemma rot_distinct: "k \<le> n \<Longrightarrow> distinct (map (\<lambda>i. (i + g) mod n) [0..<k])"
proof -
  assume kn: "k \<le> n"
  have "inj_on (\<lambda>i. (i + g) mod n) (set [0..<k])"
  proof (rule inj_onI)
    fix x y assume "x \<in> set [0..<k]" "y \<in> set [0..<k]" "(x + g) mod n = (y + g) mod n"
    then have "x < n" "y < n" using kn by auto
    then show "x = y" using \<open>(x + g) mod n = (y + g) mod n\<close> by (rule rot_inj)
  qed
  then show ?thesis by (simp add: distinct_map)
qed

lemma rot_range: "k \<le> n \<Longrightarrow> i \<in> set (map (\<lambda>i. (i + g) mod n) [0..<k]) \<Longrightarrow> i < n"
  by (cases "n = 0") auto


lemma memo_lib_contract: "library_contract memo_lib g"
  unfolding library_contract_def
  by (auto simp: memo_lib_def rot_distinct dest: rot_range)

lemma sample_has_0: "0 < k \<Longrightarrow> 0 \<in> set (map (\<lambda>i. (i + 0) mod n) [0..<k])"
  by (auto simp: image_iff intro!: bexI[of _ 0])

lemma sample_lacks_0: "k < n \<Longrightarrow> 0 \<notin> set (map (\<lambda>i. (i + 1) mod n) [0..<k])"
  by auto

lemma features_row_of:
  "i < n \<Longrightarrow> features_of (map row_of [0..<n]) ! i = [real i + 1, 1, real i + 1, 1, 1]"
  by (simp add: features_of_def row_of_def)

lemma memo_flag0:
  assumes n: "100000 < n"
  defines "rows \<equiv> map row_of [0..<n]"
  shows "\<exists>out. calculate_fraud_scores memo_lib g rows = Inr out \<and>
           is_ml_anomaly (out ! 0) =
             (0 \<notin> set (sample_indices memo_lib g (features (map init_scored rows))))"
proof -
  define X where "X = features_of rows"
  define idx where "idx = sample_indices memo_lib g X"
  define X_sample where "X_sample = map (\<lambda>i. X ! i) idx"
  define flags where "flags = map (\<lambda>p. p = - 1)
               (forest_predict memo_lib
                  (forest_fit memo_lib
                     (scaler_transform memo_lib (scaler_fit memo_lib X_sample) X_sample))
                  (scaler_transform memo_lib (scaler_fit memo_lib X_sample) X))"
  define out where "out = map2 (score_row memo_lib rows) rows flags"
  have l: "length rows > 100000" using n by (simp add: rows_def)
  have lf: "length flags = length rows"
    unfolding flags_def X_sample_def idx_def X_def
    by (rule ml_sampling_facts(5)[OF memo_lib_contract l])
  have mf: "map is_ml_anomaly out = flags"
    unfolding out_def flags_def X_sample_def idx_def X_def
    by (rule ml_sampling_facts(6)[OF memo_lib_contract l])
  have calc: "calculate_fraud_scores memo_lib g rows = Inr out"
    unfolding out_def flags_def X_sample_def idx_def X_def
    by (rule ml_sampling_facts(4)[OF memo_lib_contract l])
  have lX: "length X = n" by (simp add: X_def features_of_def rows_def)
  have Xi: "X ! i = [real i + 1, 1, real i + 1, 1, 1]" if "i < n" for i
    using that unfolding X_def rows_def by (rule features_row_of)
  have le: "100000 \<le> length X" using n lX by simp
  have "\<forall>i \<in> set (random_choice memo_lib g (length X) 100000). i < length X"
    using memo_lib_contract[of g] le unfolding library_contract_def by blast
  then have bound: "\<forall>i \<in> set idx. i < n"
    by (simp add: idx_def sample_indices_def lX)
  have mem: "X ! 0 \<in> set X_sample \<longleftrightarrow> 0 \<in> set idx"
  proof
    assume "X ! 0 \<in> set X_sample"
    then obtain i where i: "i \<in> set idx" "X ! i = X ! 0" by (auto simp: X_sample_def)
    then have "i < n" using bound by simp
    with i(2) n have "i = 0" by (simp add: Xi)
    with i(1) show "0 \<in> set idx" by simp
  next
    assume "0 \<in> set idx"
    then show "X ! 0 \<in> set X_sample" by (auto simp: X_sample_def)
  qed
  have f0: "flags ! 0 = (X ! 0 \<notin> set X_sample)"
    using n lX by (simp add: flags_def memo_lib_def)
  have "rows \<noteq> []" using l by auto
  then have "0 < length out" using lf by (simp add: out_def)
  then have "is_ml_anomaly (out ! 0) = map is_ml_anomaly out ! 0"
    by (rule nth_map[symmetric])
  also have "\<dots> = flags ! 0" by (simp add: mf)
  finally have "is_ml_anomaly (out ! 0) = (0 \<notin> set idx)"
    by (simp add: f0 mem)
  then show ?thesis
    using calc unfolding idx_def X_def features_init by blast
qed


lemma memo_sample:
  "sample_indices memo_lib g (features (map init_scored (map row_of [0..<n]))) =
     map (\<lambda>i. (i + g) mod n) [0..<100000]"
  by (simp add: sample_indices_def memo_lib_def features_def)

subsection \<open>The provider roll-up\<close>

lemma fold_provider_step:
  "distinct ks \<Longrightarrow>
   fold (update_provider_step chunk) ks ps npi =
     (if npi \<in> set ks then update_provider_step chunk npi ps npi else ps npi)"
proof (induction ks arbitrary: ps)
  case Nil
  then show ?case by simp
next
  case (Cons k ks)
  have other: "update_provider_step chunk k ps n = ps n" if "n \<noteq> k" for n
    using that by (simp add: update_provider_step_def Let_def)
  have same: "update_provider_step chunk npi (update_provider_step chunk k ps) npi
      = update_provider_step chunk npi ps npi" if "npi \<noteq> k"
    using that by (simp add: update_provider_step_def Let_def)
  show ?case
  proof (cases "npi = k")
    case True
    with Cons show ?thesis by (simp add: other)
  next
    case False
    with Cons show ?thesis by (simp add: other same)
  qed
qed

lemma update_provider_stats_at:
  "update_provider_stats chunk ps npi =
     (if npi \<noteq> Null \<and> npi \<in> billing_npi ` set chunk
      then update_provider_step chunk npi ps npi else ps npi)"
  by (simp add: update_provider_stats_def fold_provider_step unique_distinct unique_set)

lemma chunk_count_nonneg: "0 \<le> chunk_count npi chunk"
  by (simp add: chunk_count_def nunique_def)

lemma chunk_count_absent: "npi \<notin> billing_npi ` set chunk \<Longrightarrow> chunk_count npi chunk = 0"
proof -
  assume "npi \<notin> billing_npi ` set chunk"
  then have "filter (\<lambda>r. billing_npi r = npi) chunk = []"
    by (auto simp: filter_empty_conv)
  then show ?thesis by (simp add: chunk_count_def nunique_def)
qed

lemma unique_of_step:
  "unique_of (update_provider_step chunk npi ps npi) = max (unique_of (ps npi)) (chunk_count npi chunk)"
  by (simp add: update_provider_step_def Let_def unique_of_def chunk_count_def split: option.splits)

lemma unique_of_fold:
  assumes "npi \<noteq> Null"
  shows "unique_of (fold update_provider_stats chunks Map.empty npi) =
           Max (insert 0 (set (map (chunk_count npi) chunks)))"
proof (induction chunks rule: rev_induct)
  case Nil
  show ?case by (simp add: unique_of_def)
next
  case (snoc c cs)
  let ?S = "set (map (chunk_count npi) cs)"
  let ?ps = "fold update_provider_stats cs Map.empty"
  have fin: "finite (insert 0 ?S)" by simp
  have ge: "0 \<le> Max (insert 0 ?S)" by (rule Max_ge[OF fin]) simp
  have step: "fold update_provider_stats (cs @ [c]) Map.empty = update_provider_stats c ?ps"
    by simp
  have "unique_of (update_provider_stats c ?ps npi) = max (unique_of (?ps npi)) (chunk_count npi c)"
  proof (cases "npi \<in> billing_npi ` set c")
    case True
    then have "update_provider_stats c ?ps npi = update_provider_step c npi ?ps npi"
      using assms update_provider_stats_at[of c ?ps npi] by simp
    then show ?thesis by (simp only: unique_of_step)
  next
    case False
    then have "update_provider_stats c ?ps npi = ?ps npi"
      using update_provider_stats_at[of c ?ps npi] by simp
    moreover have "chunk_count npi c = 0" using False by (rule chunk_count_absent)
    ultimately show ?thesis using ge snoc by simp
  qed
  also have "\<dots> = max (Max (insert 0 ?S)) (chunk_count npi c)" by (simp only: snoc)
  also have "\<dots> = Max (insert (chunk_count npi c) (insert 0 ?S))"
    using fin by (simp add: max.commute)
  also have "insert (chunk_count npi c) (insert 0 ?S) = insert 0 (set (map (chunk_count npi) (cs @ [c])))"
    by auto
  finally show ?case unfolding step .
qed

lemma provider_present:
  assumes "npi \<noteq> Null" "c \<in> set chunks" "npi \<in> billing_npi ` set c"
  shows "\<exists>st. fold update_provider_stats chunks Map.empty npi = Some st"
  using assms(2,3)
proof (induction chunks rule: rev_induct)
  case Nil
  then show ?case by simp
next
  case (snoc x xs)
  let ?ps = "fold update_provider_stats xs Map.empty"
  have step: "fold update_provider_stats (xs @ [x]) Map.empty = update_provider_stats x ?ps"
    by simp
  show ?case
  proof (cases "npi \<in> billing_npi ` set x")
    case True
    then have "update_provider_stats x ?ps npi = update_provider_step x npi ?ps npi"
      using assms(1) update_provider_stats_at[of x ?ps npi] by simp
    then show ?thesis unfolding step
      by (simp add: update_provider_step_def Let_def)
  next
    case False
    with snoc have "\<exists>st. ?ps npi = Some st" by auto
    moreover have "update_provider_stats x ?ps npi = ?ps npi"
      using False update_provider_stats_at[of x ?ps npi] by simp
    ultimately show ?thesis unfolding step by simp
  qed
qed

lemma scenario_counts:
  "nunique (map procedure_code (filter (\<lambda>r. billing_npi r = Num 7) chunk_a)) = 3"
  "nunique (map procedure_code (filter (\<lambda>r. billing_npi r = Num 7) chunk_b)) = 5"
  "nunique (map procedure_code (filter (\<lambda>r. billing_npi r = Num 7) (chunk_a @ chunk_b))) = 6"
  by (simp_all add: nunique_def chunk_a_def chunk_b_def proc_row_def)

subsection \<open>The column check\<close>

lemma length_concat_le:
  assumes "\<And>x. x \<in> set xs \<Longrightarrow> length (f x) \<le> 1"
  shows "length (concat (map f xs)) \<le> length xs"
  using assms
proof (induction xs)
  case Nil
  then show ?case by simp
next
  case (Cons a xs)
  have "length (f a) \<le> 1" by (rule Cons.prems) simp
  moreover have "length (concat (map f xs)) \<le> length xs"
    by (rule Cons.IH) (rule Cons.prems, simp)
  ultimately show ?case by simp
qed

lemma length_concat_less:
  assumes "\<And>x. x \<in> set xs \<Longrightarrow> length (f x) \<le> 1" "y \<in> set xs" "f y = []"
  shows "length (concat (map f xs)) < length xs"
  using assms
proof (induction xs)
  case Nil
  then show ?case by simp
next
  case (Cons a xs)
  show ?case
  proof (cases "a = y")
    case True
    have "length (concat (map f xs)) \<le> length xs"
      by (rule length_concat_le) (rule Cons.prems(1), simp)
    then show ?thesis using True Cons.prems(3) by simp
  next
    case False
    then have "y \<in> set xs" using Cons.prems(2) by simp
    then have "length (concat (map f xs)) < length xs"
      by (rule Cons.IH[OF Cons.prems(1) _ Cons.prems(3), rotated]) simp
    moreover have "length (f a) \<le> 1" by (rule Cons.prems(1)) simp
    ultimately show ?thesis by simp
  qed
qed

lemma col_map_short:
  assumes "(target, names) \<in> set required_cols" "\<forall>name \<in> set names. name \<notin> set cols"
  shows "length (col_map cols) < length required_cols"
  unfolding col_map_def
proof (rule length_concat_less[where y = "(target, names)"])
  show "(target, names) \<in> set required_cols" by (rule assms(1))
  show "(case (target, names) of (target, possible_names) \<Rightarrow>
           case find (\<lambda>name. name \<in> set cols) possible_names of
             None \<Rightarrow> [] | Some name \<Rightarrow> [(name, target)]) = []"
  proof -
    have "find (\<lambda>name. name \<in> set cols) names = None"
      using assms(2) by (simp add: find_None_iff)
    then show ?thesis by simp
  qed
  fix x assume "x \<in> set required_cols"
  show "length (case x of (target, possible_names) \<Rightarrow>
           case find (\<lambda>name. name \<in> set cols) possible_names of
             None \<Rightarrow> [] | Some name \<Rightarrow> [(name, target)]) \<le> 1"
    by (simp split: prod.splits option.splits)
qed

lemma good_col_map:
  "col_map (columns good_chunk) =
     [(''BILLING_NPI'', ''billing_npi''), (''SERVICING_NPI'', ''servicing_npi''),
      (''HCPCS_CODE'', ''procedure_code''), (''CLAIM_MONTH'', ''claim_month''),
      (''BENEFICIARIES'', ''beneficiaries''), (''CLAIMS'', ''claims''), (''PAID'', ''paid'')]"
  by (simp add: col_map_def required_cols_def good_chunk_def)

lemma good_chunk_rows:
  "all_transactions (process_chunk good_chunk st) = all_transactions st @ [good_txn]"
  unfolding process_chunk_def Let_def good_col_map
  by (simp add: required_cols_def good_chunk_def rename_def clean_def valid_row_def
        to_numeric_fillna_def astype_int_def derive_def good_txn_def)

subsection \<open>A file without a required column\<close>

lemma read_csv_columns: "c \<in> set (read_csv n f) \<Longrightarrow> columns c = header f"
  by (auto simp: read_csv_def)

lemma fold_all_skipped:
  "(\<And>c. c \<in> set cs \<Longrightarrow> process_chunk c = (\<lambda>st. st)) \<Longrightarrow> fold process_chunk cs st = st"
  by (induction cs arbitrary: st) simp_all

lemma skipped_chunk:
  assumes "(target, names) \<in> set required_cols"
    and "\<forall>name \<in> set names. name \<notin> set (columns c)"
  shows "process_chunk c st = st"
  using col_map_short[OF assms] by (simp add: process_chunk_def Let_def)

lemma skipped_chunk_between:
  assumes "(target, names) \<in> set required_cols"
    and "\<forall>name \<in> set names. name \<notin> set (columns c)"
  shows "fold process_chunk (cs1 @ c # cs2) st = fold process_chunk (cs1 @ cs2) st"
  by (simp add: skipped_chunk[OF assms])

lemma missing_column_file:
  assumes "(target, names) \<in> set required_cols"
    and "\<forall>name \<in> set names. name \<notin> set (header f)"
  shows "fold process_chunk (read_csv n f) st = st"
proof (rule fold_all_skipped)
  fix c assume c: "c \<in> set (read_csv n f)"
  have "\<forall>name \<in> set names. name \<notin> set (columns c)"
    using assms(2) by (simp add: read_csv_columns[OF c])
  then show "process_chunk c = (\<lambda>st. st)"
    by (intro ext skipped_chunk[OF assms(1)])
qed

lemma missing_column_run:
  assumes "(target, names) \<in> set required_cols"
    and "\<forall>name \<in> set names. name \<notin> set (header f)"
    and "0 < n"
  shows "process_file lib g n (Some f) = Inl KeyError"
  using assms(3)
  by (simp add: process_file_def missing_column_file[OF assms(1,2)] init_detector_def
        calculate_fraud_scores_def)

lemma bad_file_lacks_paid:
  "(''paid'', [''TOTAL_PAID'', ''PAID'', ''AMOUNT'']) \<in> set required_cols"
  "\<forall>name \<in> set [''TOTAL_PAID'', ''PAID'', ''AMOUNT'']. name \<notin> set (header bad_file)"
  by (simp_all add: required_cols_def bad_file_def)

subsection \<open>The run with three rows tied for the highest paid amount\<close>

lemma grp_tied:
  "group_metric cost_per_claim (Text ''A'') tied_rows = replicate 13 1 @ replicate 2 1 @ [17]"
  "group_metric claims_per_beneficiary (Text ''A'') tied_rows =
     replicate 13 1 @ replicate 2 1 @ [17]"
  by (simp_all add: group_metric_def tied_rows_def low_row_def tie_row_def high_row_def
        cell_eq_def)

lemma mean_tied: "mean (replicate 13 1 @ replicate 2 1 @ [17]) = 2"
  by (simp add: mean_def sum_list_replicate)

lemma std_tied: "std (replicate 13 1 @ replicate 2 1 @ [17]) = 4"
  by (simp add: std_def mean_tied sum_list_replicate comp_def sqrt16)

lemma z_tied:
  "z_cost (const_lib p) tied_rows high_row = 15/4" "z_cpb (const_lib p) tied_rows high_row = 15/4"
  "z_cost (const_lib p) tied_rows low_row = - 1/4" "z_cpb (const_lib p) tied_rows low_row = - 1/4"
  "z_cost (const_lib p) tied_rows tie_row = - 1/4" "z_cpb (const_lib p) tied_rows tie_row = - 1/4"
  by (simp_all add: z_cost_def z_cpb_def z_value_def high_row_def low_row_def tie_row_def
        grp_tied mean_tied std_tied)

lemma pct_tied:
  "rank_pct (map paid tied_rows) (paid low_row) = 7 / 16"
  "rank_pct (map paid tied_rows) (paid tie_row) = 15 / 16"
  "rank_pct (map paid tied_rows) (paid high_row) = 15 / 16"
  by (simp_all add: rank_pct_def rank_average_closed tied_rows_def low_row_def tie_row_def
        high_row_def)

lemma score_tied_low: "score_row (const_lib p) tied_rows low_row True = scored_low"
  by (simp add: score_row_def Let_def contributions_def z_tied pct_tied)
     (simp add: init_scored_def low_row_def scored_low_def)

lemma score_tied_tie: "score_row (const_lib p) tied_rows tie_row True = scored_tie"
  by (simp add: score_row_def Let_def contributions_def z_tied pct_tied)
     (simp add: init_scored_def tie_row_def scored_tie_def)

lemma score_tied_high: "score_row (const_lib p) tied_rows high_row True = scored_tied_high"
  by (simp add: score_row_def Let_def contributions_def z_tied pct_tied)
     (simp add: init_scored_def high_row_def scored_tied_high_def)

lemma tied_run: "calculate_fraud_scores (const_lib (- 1)) () tied_rows = Inr tied_scored"
proof -
  have "tied_rows \<noteq> []" "length tied_rows \<le> 100000" by (simp_all add: tied_rows_def)
  then have "calculate_fraud_scores (const_lib (- 1)) () tied_rows
      = Inr (map (\<lambda>t. score_row (const_lib (- 1)) tied_rows t True) tied_rows)"
    by (simp add: calc_const_lib)
  also have "map (\<lambda>t. score_row (const_lib (- 1)) tied_rows t True) tied_rows = tied_scored"
    unfolding tied_scored_def
    by (subst (2) tied_rows_def) (simp add: score_tied_low score_tied_tie score_tied_high)
  finally show ?thesis .
qed

lemma p95_tied: "percentile_95_spec (map paid tied_scored) = 289"
proof -
  have m: "map paid tied_scored = replicate 13 1 @ replicate 2 289 @ [289]"
    by (simp add: tied_scored_def scored_low_def scored_tie_def scored_tied_high_def)
  have "sorted (replicate 13 (1::real) @ replicate 2 289 @ [289])"
    by (simp add: sorted_append)
  then have s: "sort (replicate 13 (1::real) @ replicate 2 289 @ [289])
      = replicate 13 1 @ replicate 2 289 @ [289]"
    by (rule sorted_sort_id)
  show ?thesis
    unfolding percentile_95_spec_def m s
    by (simp add: nth_append)
qed

subsection \<open>The run on three costs of a tenth\<close>









section \<open>The claims\<close>

text \<open>
  C1. For every input and every scored row, the composite fraud-risk score lies in
  \<open>[0, 100]\<close>: it starts at 0, every contribution is non-negative, and the sum is clamped
  by \<open>min 100\<close>.
\<close>

theorem composite_score_bounded:
  assumes "calculate_fraud_scores lib g rows = Inr out" "r \<in> set out"
  shows "0 \<le> fraud_risk_score r \<and> fraud_risk_score r \<le> 100"
proof -
  from assms obtain t f where "r = score_row lib rows t f" by (rule calc_row)
  then show ?thesis by (simp add: score_row_score)
qed

theorem composite_score_bounded_witness:
  "calculate_fraud_scores (const_lib (- 1)) () demo_rows = Inr demo_scored \<and>
   scored_high \<in> set demo_scored \<and>
   0 \<le> fraud_risk_score scored_high \<and> fraud_risk_score scored_high \<le> 100"
  using demo_run high_in_demo composite_score_bounded [OF demo_run high_in_demo] by simp

text \<open>
  C4, as stated: a scored row for which all four contribution conditions hold, the fourth
  being that its paid amount is at or above the 95th percentile of the paid amounts, has
  the score \<open>min 100 (min 30 (5 z_cost) + min 30 (5 z_cpb) + 25 + 15)\<close>. This fails when three
  of sixteen rows tie for the highest paid amount: the outlier has both z-scores \<open>15/4\<close>,
  the outlier flag and the highest paid amount, but its percentile rank is \<open>15/16\<close>, and
  its score is \<open>125/2\<close>, not \<open>155/2\<close>.
\<close>

theorem all_four_spec_reading_counterexample:
  "calculate_fraud_scores (const_lib (- 1)) () tied_rows = Inr tied_scored \<and>
   scored_tied_high \<in> set tied_scored \<and>
   cost_z_score scored_tied_high > 3 \<and> claims_per_ben_z_score scored_tied_high > 3 \<and>
   is_ml_anomaly scored_tied_high \<and>
   percentile_95_spec (map paid tied_scored) \<le> paid scored_tied_high \<and>
   fraud_risk_score scored_tied_high \<noteq>
     min 100 (min 30 (5 * cost_z_score scored_tied_high)
              + min 30 (5 * claims_per_ben_z_score scored_tied_high) + 25 + 15)"
proof -
  have m: "scored_tied_high \<in> set tied_scored" by (simp add: tied_scored_def)
  have z: "cost_z_score scored_tied_high > 3" "claims_per_ben_z_score scored_tied_high > 3"
    "is_ml_anomaly scored_tied_high"
    by (simp_all add: scored_tied_high_def)
  have p: "percentile_95_spec (map paid tied_scored) \<le> paid scored_tied_high"
    unfolding p95_tied by (simp add: scored_tied_high_def)
  have f: "fraud_risk_score scored_tied_high \<noteq>
     min 100 (min 30 (5 * cost_z_score scored_tied_high)
              + min 30 (5 * claims_per_ben_z_score scored_tied_high) + 25 + 15)"
    by (simp add: scored_tied_high_def)
  show ?thesis using tied_run m z p f by blast
qed

text \<open>
  C4, amended: a scored row with both z-scores above 3, the outlier flag set and the
  percentile rank of its paid amount strictly above 0.95 has the score
  \<open>min 100 (min 30 (5 z_cost) + min 30 (5 z_cpb) + 25 + 15)\<close>.
\<close>

theorem all_four_contributions:
  assumes "calculate_fraud_scores lib g rows = Inr out" "r \<in> set out"
    and "cost_z_score r > 3" "claims_per_ben_z_score r > 3" "is_ml_anomaly r"
    and "rank_pct (map paid out) (paid r) > 0.95"
  shows "fraud_risk_score r =
           min 100 (min 30 (5 * cost_z_score r) + min 30 (5 * claims_per_ben_z_score r)
                    + 25 + 15)"
proof -
  from assms(1,2) obtain t f where "r = score_row lib rows t f" by (rule calc_row)
  with assms(3-6) show ?thesis
    by (simp add: score_row_score calc_paid[OF assms(1)] mult.commute)
qed

theorem all_four_contributions_witness:
  "calculate_fraud_scores (const_lib (- 1)) () demo_rows = Inr demo_scored \<and>
   scored_high \<in> set demo_scored \<and>
   cost_z_score scored_high > 3 \<and> claims_per_ben_z_score scored_high > 3 \<and>
   is_ml_anomaly scored_high \<and>
   rank_pct (map paid demo_scored) (paid scored_high) > 0.95 \<and>
   fraud_risk_score scored_high =
     min 100 (min 30 (5 * cost_z_score scored_high)
              + min 30 (5 * claims_per_ben_z_score scored_high) + 25 + 15)"
proof -
  have z: "cost_z_score scored_high > 3" "claims_per_ben_z_score scored_high > 3"
    "is_ml_anomaly scored_high"
    by (simp_all add: scored_high_def)
  have "map paid demo_scored = map paid demo_rows"
    by (rule calc_paid [OF demo_run])
  then have p: "rank_pct (map paid demo_scored) (paid scored_high) > 0.95"
    using pct_high by (simp add: scored_high_def high_row_def)
  show ?thesis
    using demo_run high_in_demo z p all_four_contributions [OF demo_run high_in_demo z p]
    by simp
qed

text \<open>
  C5. For every scored row, \<open>is_cost_anomaly\<close> holds exactly when the cost z-score is above
  3 and \<open>is_volume_anomaly\<close> exactly when the claims-per-beneficiary z-score is above 3;
  each flag is a function of its own z-score alone.
\<close>

theorem flags_iff_z_above_3:
  assumes "calculate_fraud_scores lib g rows = Inr out" "r \<in> set out"
  shows "(is_cost_anomaly r \<longleftrightarrow> cost_z_score r > 3) \<and>
         (is_volume_anomaly r \<longleftrightarrow> claims_per_ben_z_score r > 3)"
proof -
  from assms obtain t f where "r = score_row lib rows t f" by (rule calc_row)
  then show ?thesis by simp
qed

theorem flags_iff_z_above_3_witness:
  "calculate_fraud_scores (const_lib (- 1)) () demo_rows = Inr demo_scored \<and>
   scored_high \<in> set demo_scored \<and>
   (is_cost_anomaly scored_high \<longleftrightarrow> cost_z_score scored_high > 3) \<and>
   (is_volume_anomaly scored_high \<longleftrightarrow> claims_per_ben_z_score scored_high > 3)"
  using demo_run high_in_demo flags_iff_z_above_3 [OF demo_run high_in_demo] by simp

text \<open>
  C10. A scored row with at least one of the three anomaly flags set has a composite score
  above 15.
\<close>

theorem flagged_row_scores_above_15:
  assumes "calculate_fraud_scores lib g rows = Inr out" "r \<in> set out"
    and "is_cost_anomaly r \<or> is_volume_anomaly r \<or> is_ml_anomaly r"
  shows "15 < fraud_risk_score r"
proof -
  from assms(1,2) obtain t f where "r = score_row lib rows t f" by (rule calc_row)
  with assms(3) show ?thesis by (auto simp add: score_row_score)
qed

theorem flagged_row_scores_above_15_witness:
  "calculate_fraud_scores (const_lib (- 1)) () demo_rows = Inr demo_scored \<and>
   scored_high \<in> set demo_scored \<and>
   (is_cost_anomaly scored_high \<or> is_volume_anomaly scored_high \<or> is_ml_anomaly scored_high) \<and>
   15 < fraud_risk_score scored_high"
proof -
  have f: "is_cost_anomaly scored_high \<or> is_volume_anomaly scored_high \<or> is_ml_anomaly scored_high"
    by (simp add: scored_high_def)
  show ?thesis
    using demo_run high_in_demo f flagged_row_scores_above_15 [OF demo_run high_in_demo f]
    by simp
qed




text \<open>
  C2, as stated: the 15 points of the spend percentile are added exactly when the paid
  amount of the row is at or above the 95th percentile of the paid amounts. This fails on
  two rows with equal paid amounts: each is at the 95th percentile, no other contribution
  applies (both z-scores 0, no outlier flag), and the score is 0, not 15.
\<close>

theorem spend_percentile_counterexample:
  "calculate_fraud_scores (const_lib 1) () pair_rows = Inr pair_scored \<and>
   scored_flat \<in> set pair_scored \<and>
   percentile_95_spec (map paid pair_scored) \<le> paid scored_flat \<and>
   cost_z_score scored_flat = 0 \<and> claims_per_ben_z_score scored_flat = 0 \<and>
   \<not> is_ml_anomaly scored_flat \<and>
   fraud_risk_score scored_flat = 0"
  using pair_run
  by (simp add: percentile_95_spec_def pair_scored_def scored_flat_def numeral_2_eq_2)

text \<open>
  C2, amended: the score is the clamped sum of the four contributions, the last of which
  is 15 exactly when the percentile rank of the paid amount (average rank among ties,
  divided by the number of rows) is strictly above 0.95; with \<open>b\<close> rows paying less and
  \<open>e\<close> rows paying the same amount out of \<open>n\<close>, exactly when \<open>19 n < 10 (2 b + e + 1)\<close>.
\<close>

theorem spend_contribution_by_rank:
  assumes "calculate_fraud_scores lib g rows = Inr out" "r \<in> set out"
  shows "fraud_risk_score r =
           min 100 ((if cost_z_score r > 3 then min 30 (cost_z_score r * 5) else 0)
                  + (if claims_per_ben_z_score r > 3
                     then min 30 (claims_per_ben_z_score r * 5) else 0)
                  + (if is_ml_anomaly r then 25 else 0)
                  + (if rank_pct (map paid out) (paid r) > 0.95 then 15 else 0)) \<and>
         (rank_pct (map paid out) (paid r) > 0.95 \<longleftrightarrow>
            19 * length out
              < 10 * (2 * length (filter (\<lambda>y. y < paid r) (map paid out))
                      + length (filter (\<lambda>y. y = paid r) (map paid out)) + 1))"
proof -
  from assms obtain t f where r: "r = score_row lib rows t f" by (rule calc_row)
  have m: "paid r \<in> set (map paid out)" using assms(2) by simp
  have "rank_pct (map paid out) (paid r) > 0.95 \<longleftrightarrow>
            19 * length out
              < 10 * (2 * length (filter (\<lambda>y. y < paid r) (map paid out))
                      + length (filter (\<lambda>y. y = paid r) (map paid out)) + 1)"
    using rank_pct_above_iff[OF m] by simp
  moreover have "fraud_risk_score r =
           min 100 ((if cost_z_score r > 3 then min 30 (cost_z_score r * 5) else 0)
                  + (if claims_per_ben_z_score r > 3
                     then min 30 (claims_per_ben_z_score r * 5) else 0)
                  + (if is_ml_anomaly r then 25 else 0)
                  + (if rank_pct (map paid out) (paid r) > 0.95 then 15 else 0))"
    by (simp add: r score_row_score calc_paid[OF assms(1)])
  ultimately show ?thesis by blast
qed

theorem spend_contribution_by_rank_witness:
  "calculate_fraud_scores (const_lib (- 1)) () demo_rows = Inr demo_scored \<and>
   scored_high \<in> set demo_scored \<and>
   fraud_risk_score scored_high =
     min 100 ((if cost_z_score scored_high > 3 then min 30 (cost_z_score scored_high * 5) else 0)
            + (if claims_per_ben_z_score scored_high > 3
               then min 30 (claims_per_ben_z_score scored_high * 5) else 0)
            + (if is_ml_anomaly scored_high then 25 else 0)
            + (if rank_pct (map paid demo_scored) (paid scored_high) > 0.95 then 15 else 0)) \<and>
   (rank_pct (map paid demo_scored) (paid scored_high) > 0.95 \<longleftrightarrow>
      19 * length demo_scored
        < 10 * (2 * length (filter (\<lambda>y. y < paid scored_high) (map paid demo_scored))
                + length (filter (\<lambda>y. y = paid scored_high) (map paid demo_scored)) + 1))"
  using demo_run high_in_demo spend_contribution_by_rank [OF demo_run high_in_demo]
  by simp

text \<open>
  C9. When the buffer holds more than 100,000 rows and the libraries keep their promises,
  the pass takes the sampling branch: the sample has exactly 100,000 rows at distinct
  positions, the standardizer and the outlier model are fitted on the sample and applied
  to the feature table of the whole buffer, the pass returns a table with one row per
  buffered row, and every row has its \<open>is_ml_anomaly\<close> flag from that prediction.
\<close>

theorem sampling_branch_scores_every_row:
  assumes "library_contract lib g" "length rows > 100000"
  shows "\<exists>X_sample out.
           iloc (features (map init_scored rows))
                (sample_indices lib g (features (map init_scored rows))) = Inr X_sample \<and>
           length X_sample = 100000 \<and>
           distinct (sample_indices lib g (features (map init_scored rows))) \<and>
           calculate_fraud_scores lib g rows = Inr out \<and>
           length out = length rows \<and>
           map is_ml_anomaly out =
             map (\<lambda>p. p = - 1)
               (forest_predict lib
                  (forest_fit lib (scaler_transform lib (scaler_fit lib X_sample) X_sample))
                  (scaler_transform lib (scaler_fit lib X_sample)
                     (features (map init_scored rows))))"
  unfolding features_init
  using ml_sampling_facts[OF assms] by (intro exI conjI) (assumption | simp)+

theorem sampling_branch_scores_every_row_witness:
  "library_contract (const_lib 1) () \<and> length big_rows > 100000 \<and>
   (\<exists>X_sample out.
           iloc (features (map init_scored big_rows))
                (sample_indices (const_lib 1) () (features (map init_scored big_rows)))
             = Inr X_sample \<and>
           length X_sample = 100000 \<and>
           distinct (sample_indices (const_lib 1) () (features (map init_scored big_rows))) \<and>
           calculate_fraud_scores (const_lib 1) () big_rows = Inr out \<and>
           length out = length big_rows \<and>
           map is_ml_anomaly out =
             map (\<lambda>p. p = - 1)
               (forest_predict (const_lib 1)
                  (forest_fit (const_lib 1)
                     (scaler_transform (const_lib 1) (scaler_fit (const_lib 1) X_sample) X_sample))
                  (scaler_transform (const_lib 1) (scaler_fit (const_lib 1) X_sample)
                     (features (map init_scored big_rows)))))"
proof -
  have c: "library_contract (const_lib 1) ()" by (rule const_lib_contract)
  have l: "length big_rows > 100000" by (simp add: big_rows_def)
  show ?thesis
    using c l sampling_branch_scores_every_row [OF c l] by blast
qed

text \<open>
  C3. Two runs over the same input of more than 100,000 valid rows select the same sample
  and give every row the same \<open>is_ml_anomaly\<close> flag. The program fixes the seed of the
  outlier model only (\<^verbatim>\<open>random_state=42\<close>); the sample is drawn by
  \<^verbatim>\<open>np.random.choice\<close> from numpy's global generator, whose state \<open>g\<close> the program never
  sets. The theorem runs the pass on the same 100,001 rows from two generator states, with
  libraries that keep their promises (lemma \<open>memo_lib_contract\<close>): the samples differ and
  so does the flag of the first row.
\<close>

theorem unseeded_sampling_changes_flags:
  "\<exists>out0 out1.
     calculate_fraud_scores memo_lib 0 varied_rows = Inr out0 \<and>
     calculate_fraud_scores memo_lib 1 varied_rows = Inr out1 \<and>
     sample_indices memo_lib 0 (features (map init_scored varied_rows)) \<noteq>
       sample_indices memo_lib 1 (features (map init_scored varied_rows)) \<and>
     \<not> is_ml_anomaly (out0 ! 0) \<and> is_ml_anomaly (out1 ! 0)"
proof -
  have n: "(100000::nat) < 100001" by simp
  have k: "(0::nat) < 100000" by simp
  have in0: "0 \<in> set (sample_indices memo_lib 0 (features (map init_scored varied_rows)))"
    unfolding varied_rows_def memo_sample by (rule sample_has_0[OF k])
  have out1: "0 \<notin> set (sample_indices memo_lib 1 (features (map init_scored varied_rows)))"
    unfolding varied_rows_def memo_sample
    using sample_lacks_0[OF n] by simp
  from memo_flag0[OF n, of 0] obtain out0 where
    o0: "calculate_fraud_scores memo_lib 0 varied_rows = Inr out0"
        "is_ml_anomaly (out0 ! 0) =
           (0 \<notin> set (sample_indices memo_lib 0 (features (map init_scored varied_rows))))"
    unfolding varied_rows_def by blast
  from memo_flag0[OF n, of 1] obtain out1' where
    o1: "calculate_fraud_scores memo_lib 1 varied_rows = Inr out1'"
        "is_ml_anomaly (out1' ! 0) =
           (0 \<notin> set (sample_indices memo_lib 1 (features (map init_scored varied_rows))))"
    unfolding varied_rows_def by blast
  have ne: "sample_indices memo_lib 0 (features (map init_scored varied_rows)) \<noteq>
       sample_indices memo_lib 1 (features (map init_scored varied_rows))"
    using in0 out1 by metis
  show ?thesis
    using o0 o1 in0 out1 ne by blast
qed

text \<open>
  C7. For every provider that occurs in some chunk of a sequence of chunks, the roll-up
  ends with an entry whose \<open>unique_procedures\<close> is the maximum over the chunks of the
  number of distinct procedure codes of the provider within the chunk, not the number of
  distinct codes over all chunks: with 3 codes in one chunk and 5 in another, 2 of them
  shared, it is 5 and not 6.
\<close>

theorem unique_procedures_is_max_over_chunks:
  assumes "npi \<noteq> Null" "c \<in> set chunks" "npi \<in> billing_npi ` set c"
  shows "\<exists>st. fold update_provider_stats chunks Map.empty npi = Some st \<and>
              unique_procedures st =
                Max (set (map (\<lambda>chunk. nunique (map procedure_code
                                          (filter (\<lambda>r. billing_npi r = npi) chunk))) chunks))"
proof -
  from provider_present[OF assms] obtain st
    where st: "fold update_provider_stats chunks Map.empty npi = Some st" by blast
  let ?S = "set (map (chunk_count npi) chunks)"
  have ne: "?S \<noteq> {}" using assms(2) by auto
  have "unique_procedures st = Max (insert 0 ?S)"
    using unique_of_fold[OF assms(1), of chunks] by (simp add: st unique_of_def)
  also have "\<dots> = max 0 (Max ?S)" using ne by simp
  also have "\<dots> = Max ?S"
  proof -
    have x: "chunk_count npi c \<in> ?S" using assms(2) by simp
    have "0 \<le> chunk_count npi c" by (rule chunk_count_nonneg)
    also have "chunk_count npi c \<le> Max ?S" using x by (intro Max_ge) simp_all
    finally show ?thesis by simp
  qed
  finally show ?thesis
    using st unfolding chunk_count_def[abs_def] by blast
qed


theorem unique_procedures_is_max_over_chunks_witness:
  "Num 7 \<noteq> Null \<and> chunk_b \<in> set [chunk_a, chunk_b] \<and> Num 7 \<in> billing_npi ` set chunk_b \<and>
   (\<exists>st. fold update_provider_stats [chunk_a, chunk_b] Map.empty (Num 7) = Some st \<and>
         unique_procedures st =
           Max (set (map (\<lambda>chunk. nunique (map procedure_code
                                     (filter (\<lambda>r. billing_npi r = Num 7) chunk)))
                      [chunk_a, chunk_b])) \<and>
         unique_procedures st = 5) \<and>
   nunique (map procedure_code (filter (\<lambda>r. billing_npi r = Num 7) chunk_a)) = 3 \<and>
   nunique (map procedure_code (filter (\<lambda>r. billing_npi r = Num 7) chunk_b)) = 5 \<and>
   nunique (map procedure_code (filter (\<lambda>r. billing_npi r = Num 7) (chunk_a @ chunk_b))) = 6"
proof -
  have a: "Num 7 \<noteq> Null" by simp
  have b: "chunk_b \<in> set [chunk_a, chunk_b]" by simp
  have c: "Num 7 \<in> billing_npi ` set chunk_b" by (simp add: chunk_b_def proc_row_def)
  from unique_procedures_is_max_over_chunks [OF a b c] obtain st where
    st: "fold update_provider_stats [chunk_a, chunk_b] Map.empty (Num 7) = Some st"
        "unique_procedures st =
           Max (set (map (\<lambda>chunk. nunique (map procedure_code
                                     (filter (\<lambda>r. billing_npi r = Num 7) chunk)))
                      [chunk_a, chunk_b]))"
    by blast
  have "unique_procedures st = 5"
    unfolding st(2) by (simp add: scenario_counts)
  with st a b c scenario_counts show ?thesis by blast
qed

text \<open>
  C8. A chunk in which some required field has none of its accepted names among the
  columns contributes nothing, and processing continues without raising an error. The
  chunk is skipped (lemmas \<open>skipped_chunk\<close>, \<open>skipped_chunk_between\<close>), but every chunk of a
  file has the columns of the one header, so all chunks of such a file are skipped, the
  buffer stays empty, and the scoring pass raises KeyError on the empty table: the run
  fails. The theorem is the run on a file of three rows without a column for the paid
  amount.
\<close>

theorem missing_column_run_raises:
  "fold process_chunk (read_csv 50000 bad_file) init_detector = init_detector \<and>
   process_file lib g 50000 (Some bad_file) = Inl KeyError"
  using missing_column_file[OF bad_file_lacks_paid, of 50000 init_detector]
    missing_column_run[OF bad_file_lacks_paid, of 50000 lib g]
  by simp

end
